theory Spec2Isabelle
  imports Main "HOL-Library.Word"
begin

section \<open>Values of the host language\<close>

text \<open>
  The repository holds three variants of one class, \<^verbatim>\<open>GLMOCRConverter\<close>, all TypeScript:
  \<^item> \<^verbatim>\<open>src/src/converters/glmocrConverter.ts\<close>, the local JSON (vision chat) variant;
  \<^item> \<^verbatim>\<open>src/unnamed/part_000\<close>, the cloud variant;
  \<^item> \<^verbatim>\<open>src/unnamed/part_001\<close>, the local variant that sends a PDF as multipart form data.

  A JavaScript string is modelled as a \<^typ>\<open>string\<close> whose characters stand for code
  units; only the code units below 256 are representable, which covers every literal of
  the sources and every binary string handed to \<^verbatim>\<open>btoa\<close>. A byte of an
  \<^verbatim>\<open>ArrayBuffer\<close> is an 8-bit word.
\<close>

type_synonym byte = "8 word"

subsection \<open>Decimal rendering of an integer\<close>

text \<open>
  The template literals of the sources interpolate \<^verbatim>\<open>response.status\<close>, an integral
  number, which is rendered in decimal.
\<close>

definition digit_char :: "nat \<Rightarrow> char" where
  "digit_char d = char_of (48 + d)"

function show_nat :: "nat \<Rightarrow> string" where
  "show_nat n = (if n < 10 then [digit_char n] else show_nat (n div 10) @ [digit_char (n mod 10)])"
  by pat_completeness auto
termination
  by (relation "measure id") auto

declare show_nat.simps [simp del]

definition show_int :: "int \<Rightarrow> string" where
  "show_int i = (if i < 0 then CHR ''-'' # show_nat (nat (- i)) else show_nat (nat i))"

subsection \<open>JSON values and the operations the converters apply to them\<close>

text \<open>
  The value \<^verbatim>\<open>JSON.parse\<close> returns, with \<^verbatim>\<open>undefined\<close> added for the result of reading
  a property that is not there. A number is an IEEE double in the source; the model
  keeps the text that \<^verbatim>\<open>String\<close> renders for it (\<^verbatim>\<open>1\<close>, \<^verbatim>\<open>0.5\<close>, \<^verbatim>\<open>1e+21\<close>), which
  determines the double up to the sign of zero, so that the number zero is exactly
  \<open>JNum ''0''\<close>. An object is the list of its own properties, looked up from the left.
\<close>

datatype jsval =
    JUndefined
  | JNull
  | JBool bool
  | JNum string
  | JStr string
  | JArr "jsval list"
  | JObj "(string \<times> jsval) list"

text \<open>An exception, with its \<^verbatim>\<open>message\<close> property.\<close>

datatype js_error = Thrown string

fun error_message :: "js_error \<Rightarrow> string" where
  "error_message (Thrown m) = m"

text \<open>The \<^verbatim>\<open>TypeError\<close> of reading a property of \<^verbatim>\<open>null\<close> or \<^verbatim>\<open>undefined\<close>.\<close>

definition TypeError :: js_error where
  "TypeError = Thrown ''Cannot read properties of null or undefined''"

text \<open>Truthiness, as tested by \<^verbatim>\<open>if\<close>, \<^verbatim>\<open>!\<close>, \<^verbatim>\<open>||\<close> and \<^verbatim>\<open>?:\<close>.\<close>

fun truthy :: "jsval \<Rightarrow> bool" where
  "truthy JUndefined = False"
| "truthy JNull = False"
| "truthy (JBool b) = b"
| "truthy (JNum n) = (n \<noteq> ''0'' \<and> n \<noteq> ''NaN'')"
| "truthy (JStr s) = (s \<noteq> [])"
| "truthy (JArr xs) = True"
| "truthy (JObj kvs) = True"

text \<open>\<^verbatim>\<open>a || b\<close>\<close>

definition js_or :: "jsval \<Rightarrow> jsval \<Rightarrow> jsval" where
  "js_or a b = (if truthy a then a else b)"

text \<open>
  Reading a property, \<^verbatim>\<open>v.k\<close> or \<^verbatim>\<open>v[0]\<close>. The converters read
  \<^verbatim>\<open>error\<close>, \<^verbatim>\<open>message\<close>, \<^verbatim>\<open>msg\<close>, \<^verbatim>\<open>code\<close>, \<^verbatim>\<open>data\<close>, \<^verbatim>\<open>md_result\<close>, \<^verbatim>\<open>choices\<close>,
  \<^verbatim>\<open>content\<close> and the index \<^verbatim>\<open>0\<close>; none of these names is inherited from a prototype,
  so that a primitive, an array and a string have them only as the index \<^verbatim>\<open>0\<close>.
  \<open>get_prop\<close> is meant for these names only.
\<close>

fun get_prop :: "jsval \<Rightarrow> string \<Rightarrow> js_error + jsval" where
  "get_prop JUndefined k = Inl TypeError"
| "get_prop JNull k = Inl TypeError"
| "get_prop (JBool b) k = Inr JUndefined"
| "get_prop (JNum n) k = Inr JUndefined"
| "get_prop (JStr s) k =
     Inr (if k = ''0'' then (case s of [] \<Rightarrow> JUndefined | c # cs \<Rightarrow> JStr [c]) else JUndefined)"
| "get_prop (JArr xs) k =
     Inr (if k = ''0'' then (case xs of [] \<Rightarrow> JUndefined | x # ys \<Rightarrow> x) else JUndefined)"
| "get_prop (JObj kvs) k = Inr (case map_of kvs k of None \<Rightarrow> JUndefined | Some v \<Rightarrow> v)"

text \<open>Optional chaining, \<^verbatim>\<open>v?.k\<close> and \<^verbatim>\<open>v?.[0]\<close>: \<^verbatim>\<open>undefined\<close> on a nullish \<open>v\<close>.\<close>

fun opt_chain :: "jsval \<Rightarrow> string \<Rightarrow> jsval" where
  "opt_chain JUndefined k = JUndefined"
| "opt_chain JNull k = JUndefined"
| "opt_chain v k = (case get_prop v k of Inl e \<Rightarrow> JUndefined | Inr w \<Rightarrow> w)"

text \<open>
  The string a template literal interpolates for a value: \<^verbatim>\<open>String(v)\<close>. An array joins
  its elements with commas, from the left, a nullish element giving the empty string. An
  object is converted by the \<^verbatim>\<open>toString\<close> it has: the inherited one renders
  \<^verbatim>\<open>[object Object]\<close>; an own property of that name, which in a parsed JSON value is never
  a function, leaves the conversion with \<^verbatim>\<open>valueOf\<close>, which yields no primitive either
  way, and the interpolation throws a \<^verbatim>\<open>TypeError\<close>.
\<close>

definition NotPrimitive :: js_error where
  "NotPrimitive = Thrown ''Cannot convert object to primitive value''"

fun join_comma :: "string list \<Rightarrow> string" where
  "join_comma [] = []"
| "join_comma [s] = s"
| "join_comma (s # t # ts) = s @ '','' @ join_comma (t # ts)"

fun until_thrown :: "(js_error + 'a) list \<Rightarrow> js_error + 'a list" where
  "until_thrown [] = Inr []"
| "until_thrown (Inl e # rs) = Inl e"
| "until_thrown (Inr x # rs) = (case until_thrown rs of Inl e \<Rightarrow> Inl e | Inr xs \<Rightarrow> Inr (x # xs))"

fun to_string :: "jsval \<Rightarrow> js_error + string" where
  "to_string JUndefined = Inr ''undefined''"
| "to_string JNull = Inr ''null''"
| "to_string (JBool b) = Inr (if b then ''true'' else ''false'')"
| "to_string (JNum n) = Inr n"
| "to_string (JStr s) = Inr s"
| "to_string (JArr xs) =
     (case until_thrown (map (\<lambda>x. if x = JNull \<or> x = JUndefined then Inr [] else to_string x) xs) of
        Inl e \<Rightarrow> Inl e
      | Inr rendered \<Rightarrow> Inr (join_comma rendered))"
| "to_string (JObj kvs) =
     (case map_of kvs ''toString'' of
        None \<Rightarrow> Inr ''[object Object]''
      | Some f \<Rightarrow> Inl NotPrimitive)"

text \<open>\<^verbatim>\<open>s.substring(0, n)\<close>\<close>

definition substring0 :: "string \<Rightarrow> nat \<Rightarrow> string" where
  "substring0 s n = take n s"

section \<open>Base64\<close>

subsection \<open>The platform's encoder\<close>

text \<open>
  \<^verbatim>\<open>btoa\<close> is a function of the platform, not of the repository. It is the Base64
  encoding of RFC 4648, section 4: three octets become four characters of the alphabet,
  and a final group of one or two octets is padded with \<^verbatim>\<open>=\<close>. (\<^verbatim>\<open>btoa\<close> raises on a
  code unit above 255; no such code unit exists in \<^typ>\<open>string\<close>.)
\<close>

definition b64chars :: string where
  "b64chars = ''ABCDEFGHIJKLMNOPQRSTUVWXYZabcdefghijklmnopqrstuvwxyz0123456789+/''"

definition b64enc :: "nat \<Rightarrow> char" where
  "b64enc i = b64chars ! i"

fun btoa_codes :: "nat list \<Rightarrow> string" where
  "btoa_codes [] = []"
| "btoa_codes [a] =
     [b64enc (a div 4), b64enc ((a mod 4) * 16), CHR ''='', CHR ''='']"
| "btoa_codes [a, b] =
     [b64enc (a div 4), b64enc ((a mod 4) * 16 + b div 16), b64enc ((b mod 16) * 4), CHR ''='']"
| "btoa_codes (a # b # c # rest) =
     [b64enc (a div 4), b64enc ((a mod 4) * 16 + b div 16),
      b64enc ((b mod 16) * 4 + c div 64), b64enc (c mod 64)] @ btoa_codes rest"

definition btoa :: "string \<Rightarrow> string" where
  "btoa binary = btoa_codes (map of_char binary)"

subsection \<open>\<^verbatim>\<open>arrayBufferToBase64\<close>\<close>

text \<open>
  The same private method in all three sources:
  \<^verbatim>\<open>
  const bytes = new Uint8Array(buffer);
  let binary = '';
  for (let i = 0; i < bytes.byteLength; i++) {
    binary += String.fromCharCode(bytes[i]);
  }
  return btoa(binary);
  \<close>
  The loop is the recursion \<open>binary_loop\<close> on the index \<open>i\<close> and the string built so far.
\<close>

definition fromCharCode :: "byte \<Rightarrow> char" where
  "fromCharCode b = char_of (unat b)"

function binary_loop :: "byte list \<Rightarrow> nat \<Rightarrow> string \<Rightarrow> string" where
  "binary_loop bytes i binary =
     (if i < length bytes then binary_loop bytes (Suc i) (binary @ [fromCharCode (bytes ! i)])
      else binary)"
  by pat_completeness auto
termination
  by (relation "measure (\<lambda>(bytes, i, binary). length bytes - i)") auto

declare binary_loop.simps [simp del]

definition arrayBufferToBase64 :: "byte list \<Rightarrow> string" where
  "arrayBufferToBase64 buffer = btoa (binary_loop buffer 0 [])"

subsection \<open>A standard decoder\<close>






section \<open>The world around a call\<close>

subsection \<open>Requests, responses and the conversion result\<close>

text \<open>
  \<^verbatim>\<open>RequestUrlParam\<close> of the host application. The body of a request is either the text
  \<^verbatim>\<open>JSON.stringify\<close> renders for a value (kept as the value) or a byte array.
\<close>

datatype req_body = JsonText jsval | Binary "byte list"

record request =
  req_url :: string
  req_method :: string
  req_throw :: bool
  req_headers :: "(string \<times> string) list"
  req_body :: "req_body option"

record response =
  resp_status :: int
  resp_text :: string

text \<open>
  \<^verbatim>\<open>ConversionResult\<close>, with \<^verbatim>\<open>metadata\<close> flattened. The field \<^verbatim>\<open>markdown\<close> is declared a
  string; at run time it holds whatever value the response carried.
\<close>

record conversion_result =
  cr_success :: bool
  cr_markdown :: jsval
  cr_images :: "(string \<times> string) list"
  cr_model :: string
  cr_source_file :: string

subsection \<open>What a call does, and what it returns\<close>

text \<open>
  The effects of a call that the outside can observe, in the order they happen: a
  notice shown to the user (its text; the display time is left out), the read of the
  file, a request handed to \<^verbatim>\<open>requestUrl\<close> together with what came back, and the three
  vault operations after a conversion. Output to the console is not modelled.
\<close>

datatype event =
    Notice string
  | ReadBinary
  | Http request "js_error + response"
  | ProcessResult conversion_result string
  | Rename string
  | DeleteOriginal

text \<open>
  \<^verbatim>\<open>convert\<close> resolves to a boolean. The model keeps, with the boolean, the exit that
  produced it: \<open>Success\<close> is \<^verbatim>\<open>return true\<close>, with the conversion result that was handed
  on; \<open>Failure k m\<close> is a \<^verbatim>\<open>return false\<close>, \<open>k\<close> naming the exit after the error
  taxonomy of the specification and \<open>m\<close> being the message shown to the user.
  \<open>Declined\<close> is the exit taken when \<^verbatim>\<open>prepareConversion\<close> yields no folder; it shows no
  message.
\<close>

datatype failure_kind =
    Declined
  | ConfigError
  | HttpError
  | MalformedResponse
  | BackendError
  | EmptyResult
  | TransportError

datatype outcome = Success conversion_result | Failure failure_kind string

fun returned :: "outcome \<Rightarrow> bool" where
  "returned (Success cr) = True"
| "returned (Failure k m) = False"

subsection \<open>Computations that may throw and leave a trace\<close>

text \<open>
  A computation yields an exception or a value, and the events it caused. \<open>io_bind\<close>
  is sequencing (an exception skips what follows), \<open>try_catch\<close> is
  \<^verbatim>\<open>try { ... } catch (e) { ... }\<close>.
\<close>

type_synonym 'a io = "(js_error + 'a) \<times> event list"

definition io_return :: "'a \<Rightarrow> 'a io" where
  "io_return x = (Inr x, [])"

definition io_bind :: "'a io \<Rightarrow> ('a \<Rightarrow> 'b io) \<Rightarrow> 'b io" where
  "io_bind m f =
     (case fst m of
        Inl e \<Rightarrow> (Inl e, snd m)
      | Inr x \<Rightarrow> (fst (f x), snd m @ snd (f x)))"

definition io_then :: "'a io \<Rightarrow> 'b io \<Rightarrow> 'b io" where
  "io_then m n = io_bind m (\<lambda>x. n)"

definition try_catch :: "'a io \<Rightarrow> (js_error \<Rightarrow> 'a io) \<Rightarrow> 'a io" where
  "try_catch m h =
     (case fst m of
        Inl e \<Rightarrow> (fst (h e), snd m @ snd (h e))
      | Inr x \<Rightarrow> m)"

text \<open>A pure step that may throw (\<^verbatim>\<open>JSON.parse\<close>, reading a property).\<close>

definition lift :: "js_error + 'a \<Rightarrow> 'a io" where
  "lift r = (r, [])"

text \<open>An effect, and a call to the outside that leaves an event and may throw.\<close>

definition emit :: "event \<Rightarrow> unit io" where
  "emit ev = (Inr (), [ev])"

definition perform :: "event \<Rightarrow> js_error option \<Rightarrow> unit io" where
  "perform ev r = ((case r of None \<Rightarrow> Inr () | Some e \<Rightarrow> Inl e), [ev])"

definition io_when :: "bool \<Rightarrow> unit io \<Rightarrow> unit io" where
  "io_when c m = (if c then m else io_return ())"

subsection \<open>The inputs of a call\<close>

text \<open>
  Everything a call reads from outside the class: the settings, the file, and the
  answers of the collaborators it calls. \<^verbatim>\<open>prepareConversion\<close> and
  \<^verbatim>\<open>processConversionResult\<close> belong to \<^verbatim>\<open>BaseConverter\<close>, \<^verbatim>\<open>deleteOriginalFile\<close> to
  \<^verbatim>\<open>fileUtils\<close>; neither file is part of the sources at hand, and \<^verbatim>\<open>requestUrl\<close>,
  \<^verbatim>\<open>JSON.parse\<close>, \<^verbatim>\<open>Math.random\<close> and the vault belong to the platform. Each is taken as
  given:
  \<^item> \<open>prepareConversion\<close> is the folder path that method resolves to (\<open>None\<close> for
    \<^verbatim>\<open>null\<close>); the call stands before the \<^verbatim>\<open>try\<close> block of \<^verbatim>\<open>convert\<close>, and runs in which
    it throws are outside the model;
  \<^item> \<open>readBinary\<close>, \<open>requestUrl\<close> and \<open>JSON_parse\<close> yield a value or throw;
  \<^item> \<open>processConversionResult\<close>, \<open>vault_rename\<close> and \<open>deleteOriginalFile\<close> complete
    (\<open>None\<close>) or throw;
  \<^item> \<open>random36\<close> is the text of \<^verbatim>\<open>Math.random().toString(36)\<close>.
\<close>

record env =
  glmocrEndpoint :: "string option"
  glmocrApiKey :: "string option"
  movePDFtoFolder :: bool
  deleteOriginal :: bool
  file_name :: string
  prepareConversion :: "string option"
  readBinary :: "js_error + byte list"
  requestUrl :: "request \<Rightarrow> js_error + response"
  JSON_parse :: "string \<Rightarrow> js_error + jsval"
  processConversionResult :: "conversion_result \<Rightarrow> string \<Rightarrow> js_error option"
  vault_rename :: "string \<Rightarrow> js_error option"
  deleteOriginalFile :: "js_error option"
  random36 :: string

text \<open>\<^verbatim>\<open>await app.vault.readBinary(file)\<close> and \<^verbatim>\<open>await requestUrl(requestParams)\<close>\<close>

definition read_file :: "env \<Rightarrow> (byte list) io" where
  "read_file env = (readBinary env, [ReadBinary])"

definition send :: "env \<Rightarrow> request \<Rightarrow> response io" where
  "send env rq = (requestUrl env rq, [Http rq (requestUrl env rq)])"

text \<open>A setting that holds a string, read with a default: \<^verbatim>\<open>s || d\<close>.\<close>

definition or_default :: "string option \<Rightarrow> string \<Rightarrow> string" where
  "or_default s d = (case s of None \<Rightarrow> d | Some v \<Rightarrow> (if v = [] then d else v))"


section \<open>What the three sources share\<close>

subsection \<open>\<^verbatim>\<open>getMimeType\<close> and the file extension\<close>

text \<open>
  \<^verbatim>\<open>filename.toLowerCase().split('.').pop()\<close>. On the code units below 256,
  \<^verbatim>\<open>toLowerCase\<close> moves the letters A to Z and the capital letters of Latin-1 (192 to 222
  but for the multiplication sign, 215) up by 32.
\<close>

definition lower_char :: "char \<Rightarrow> char" where
  "lower_char c =
     (let n = (of_char c :: nat)
      in if (65 \<le> n \<and> n \<le> 90) \<or> (192 \<le> n \<and> n \<le> 222 \<and> n \<noteq> 215) then char_of (n + 32) else c)"

definition toLowerCase :: "string \<Rightarrow> string" where
  "toLowerCase s = map lower_char s"

fun split_on :: "char \<Rightarrow> string \<Rightarrow> string list" where
  "split_on d [] = [[]]"
| "split_on d (c # cs) =
     (if c = d then [] # split_on d cs
      else (case split_on d cs of [] \<Rightarrow> [[c]] | w # ws \<Rightarrow> (c # w) # ws))"

definition fileExt :: "string \<Rightarrow> string" where
  "fileExt name = last (split_on CHR ''.'' (toLowerCase name))"

definition isPDF :: "env \<Rightarrow> bool" where
  "isPDF env = (fileExt (file_name env) = ''pdf'')"

text \<open>
  \<^verbatim>\<open>return mimeTypes[ext || ''] || 'application/octet-stream';\<close> The table is an object
  literal, so the lookup also finds the two properties with a lower-case name that every
  object inherits, \<^verbatim>\<open>constructor\<close> and \<^verbatim>\<open>__proto__\<close>; both are truthy, and the caller
  interpolates them into a template literal, where they render as given below.
\<close>

definition mimeTypes :: "(string \<times> string) list" where
  "mimeTypes =
     [(''pdf'', ''application/pdf''),
      (''png'', ''image/png''),
      (''jpg'', ''image/jpeg''),
      (''jpeg'', ''image/jpeg''),
      (''gif'', ''image/gif''),
      (''bmp'', ''image/bmp''),
      (''webp'', ''image/webp''),
      (''tiff'', ''image/tiff''),
      (''tif'', ''image/tiff'')]"

definition getMimeType :: "string \<Rightarrow> string" where
  "getMimeType filename =
     (let ext = fileExt filename
      in case map_of mimeTypes ext of
           Some m \<Rightarrow> m
         | None \<Rightarrow>
             if ext = ''constructor'' then ''function Object() { [native code] }''
             else if ext = ''__proto__'' then ''[object Object]''
             else ''application/octet-stream'')"

definition dataUri :: "env \<Rightarrow> byte list \<Rightarrow> string" where
  "dataUri env fileData =
     ''data:'' @ getMimeType (file_name env) @ '';base64,'' @ arrayBufferToBase64 fileData"

subsection \<open>Exits\<close>

text \<open>
  \<^verbatim>\<open>if (!folderPath) return false;\<close> is taken on \<^verbatim>\<open>null\<close> and on the empty string.
\<close>

definition declined :: "outcome io" where
  "declined = io_return (Failure Declined [])"

text \<open>
  \<^verbatim>\<open>new Notice(`GLM-OCR conversion failed: ${m}`); return false;\<close>
\<close>

definition fail :: "failure_kind \<Rightarrow> string \<Rightarrow> outcome io" where
  "fail k m = io_then (emit (Notice (''GLM-OCR conversion failed: '' @ m))) (io_return (Failure k m))"

text \<open>
  The handler of a body that is not JSON, on a status other than 200:
  \<^verbatim>\<open>
  new Notice(`GLM-OCR conversion failed: HTTP ${response.status} - ${
    response.text ? response.text.substring(0, 100) : 'No response details'}`);
  return false;
  \<close>
\<close>

definition raw_text_message :: "response \<Rightarrow> string" where
  "raw_text_message response =
     ''HTTP '' @ show_int (resp_status response) @ '' - '' @
       (if resp_text response \<noteq> [] then substring0 (resp_text response) 100
        else ''No response details'')"

text \<open>
  The inner handler on status 200:
  \<^verbatim>\<open>new Notice('Error parsing GLM-OCR response. Check console for details.'); return false;\<close>
\<close>

definition parse_error_notice :: string where
  "parse_error_notice = ''Error parsing GLM-OCR response. Check console for details.''"

definition parse_failed :: "outcome io" where
  "parse_failed =
     io_then (emit (Notice parse_error_notice)) (io_return (Failure MalformedResponse parse_error_notice))"

text \<open>
  The outer handler:
  \<^verbatim>\<open>new Notice(`GLM-OCR conversion failed: ${error.message || 'Network or server error'}`);
  return false;\<close>
\<close>

definition transport_failed :: "js_error \<Rightarrow> outcome io" where
  "transport_failed error =
     fail TransportError
       (if error_message error \<noteq> [] then error_message error else ''Network or server error'')"

subsection \<open>After a conversion\<close>

text \<open>
  \<^verbatim>\<open>
  await this.processConversionResult(app, settings, conversionResult, folderPath, file);
  new Notice('Conversion with GLM-OCR completed');
  if (settings.movePDFtoFolder) {
    const newFilePath = folderPath + file.name;
    await app.vault.rename(file, newFilePath);
  }
  if (settings.deleteOriginal) {
    await deleteOriginalFile(app, file);
  }
  return true;
  \<close>
\<close>

definition finish :: "env \<Rightarrow> string \<Rightarrow> conversion_result \<Rightarrow> outcome io" where
  "finish env folderPath conversionResult =
     io_then (perform (ProcessResult conversionResult folderPath)
                (processConversionResult env conversionResult folderPath))
    (io_then (emit (Notice ''Conversion with GLM-OCR completed''))
    (io_then (io_when (movePDFtoFolder env)
                (perform (Rename (folderPath @ file_name env))
                   (vault_rename env (folderPath @ file_name env))))
    (io_then (io_when (deleteOriginal env) (perform DeleteOriginal (deleteOriginalFile env)))
    (io_return (Success conversionResult)))))"

subsection \<open>The chat request and the responses of a local server\<close>

text \<open>
  The JSON request of both local variants; they differ in the prompt only.
\<close>

definition chat_payload :: "string \<Rightarrow> string \<Rightarrow> jsval" where
  "chat_payload prompt uri =
     JObj [(''model'', JStr ''mlx-community/GLM-OCR-bf16''),
           (''messages'',
              JArr [JObj [(''role'', JStr ''user''),
                          (''content'',
                             JArr [JObj [(''type'', JStr ''text''), (''text'', JStr prompt)],
                                   JObj [(''type'', JStr ''image_url''),
                                         (''image_url'', JObj [(''url'', JStr uri)])]])]]),
           (''max_tokens'', JNum ''4096'')]"

definition endpoint :: "env \<Rightarrow> string" where
  "endpoint env = or_default (glmocrEndpoint env) ''localhost:8080''"

definition chat_request :: "env \<Rightarrow> string \<Rightarrow> byte list \<Rightarrow> request" where
  "chat_request env prompt fileData =
     \<lparr>req_url = ''http://'' @ endpoint env @ ''/chat/completions'',
      req_method = ''POST'',
      req_throw = False,
      req_headers = [(''Content-Type'', ''application/json'')],
      req_body = Some (JsonText (chat_payload prompt (dataUri env fileData)))\<rparr>"

text \<open>
  A status other than 200, in both local variants:
  \<^verbatim>\<open>
  try {
    const errorData = JSON.parse(response.text) as GLMOCRErrorResponse;
    let errorMsg = `HTTP ${response.status}`;
    if (errorData.error?.message) {
      errorMsg = errorData.error.message;
    } else if (errorData.message) {
      errorMsg = errorData.message;
    }
    new Notice(`GLM-OCR conversion failed: ${errorMsg}`);
    return false;
  } catch (parseErr) { ... }
  \<close>
\<close>

definition error_response_local :: "env \<Rightarrow> response \<Rightarrow> outcome io" where
  "error_response_local env response =
     try_catch
       (io_bind (lift (JSON_parse env (resp_text response))) (\<lambda>errorData.
        io_bind (lift (get_prop errorData ''error'')) (\<lambda>err.
        io_bind (if truthy (opt_chain err ''message'')
                 then io_return (opt_chain err ''message'')
                 else io_bind (lift (get_prop errorData ''message'')) (\<lambda>m.
                      io_return (if truthy m then m
                                 else JStr (''HTTP '' @ show_int (resp_status response)))))
          (\<lambda>errorMsg.
        io_bind (lift (to_string errorMsg)) (\<lambda>rendered.
        fail HttpError rendered)))))
       (\<lambda>parseErr. fail HttpError (raw_text_message response))"

text \<open>
  Status 200, in both local variants:
  \<^verbatim>\<open>
  try {
    const responseData = JSON.parse(response.text) as GLMOCRSuccessResponse;
    const ocrText = responseData.choices?.[0]?.message?.content || 'No text extracted';
    const conversionResult: ConversionResult = {
      success: true, markdown: ocrText, images: {},
      metadata: { model: 'GLM-OCR (mlx-vlm)', source_file: file.name },
    };
    ...
    return true;
  } catch (parseError) { ... }
  \<close>
\<close>

definition success_response_local :: "env \<Rightarrow> string \<Rightarrow> response \<Rightarrow> outcome io" where
  "success_response_local env folderPath response =
     try_catch
       (io_bind (lift (JSON_parse env (resp_text response))) (\<lambda>responseData.
        io_bind (lift (get_prop responseData ''choices'')) (\<lambda>choices.
        let ocrText =
              js_or (opt_chain (opt_chain (opt_chain choices ''0'') ''message'') ''content'')
                (JStr ''No text extracted'')
        in finish env folderPath
             \<lparr>cr_success = True, cr_markdown = ocrText, cr_images = [],
              cr_model = ''GLM-OCR (mlx-vlm)'', cr_source_file = file_name env\<rparr>)))
       (\<lambda>parseError. parse_failed)"

definition handle_response_local :: "env \<Rightarrow> string \<Rightarrow> response \<Rightarrow> outcome io" where
  "handle_response_local env folderPath response =
     (if resp_status response \<noteq> 200 then error_response_local env response
      else success_response_local env folderPath response)"

text \<open>\<^verbatim>\<open>if (!silent) new Notice(m);\<close>, and a \<^verbatim>\<open>GET\<close> request.\<close>

definition notify :: "bool \<Rightarrow> string \<Rightarrow> unit io" where
  "notify silent m = io_when (\<not> silent) (emit (Notice m))"

definition get_request :: "string \<Rightarrow> (string \<times> string) list \<Rightarrow> request" where
  "get_request u hs =
     \<lparr>req_url = u, req_method = ''GET'', req_throw = False, req_headers = hs, req_body = None\<rparr>"

text \<open>
  The second attempt of \<^verbatim>\<open>testConnection\<close> in both local variants. \<open>Some True\<close> is the
  \<^verbatim>\<open>return true\<close> inside the block; \<open>None\<close> is falling out of it.
  \<^verbatim>\<open>
  try {
    const altResponse = await requestUrl({ url: `http://${glmocrEndpoint}/`, method: 'GET', throw: false });
    if (altResponse.status === 200) {
      if (!silent) new Notice('GLM-OCR connection successful!');
      return true;
    }
  } catch { }
  \<close>
\<close>

definition alt_attempt :: "env \<Rightarrow> bool \<Rightarrow> (bool option) io" where
  "alt_attempt env silent =
     try_catch
       (io_bind (send env (get_request (''http://'' @ endpoint env @ ''/'') [])) (\<lambda>altResponse.
        if resp_status altResponse = 200
        then io_then (notify silent ''GLM-OCR connection successful!'') (io_return (Some True))
        else io_return None))
       (\<lambda>e. io_return None)"


section \<open>The local JSON variant (\<^verbatim>\<open>src/src/converters/glmocrConverter.ts\<close>)\<close>

text \<open>
  \<^verbatim>\<open>convert\<close>, lines 31 to 177. The block that computes \<^verbatim>\<open>realFilePath\<close> (lines 42 to 50)
  is left out: the variable is never read.
\<close>

definition prompt_local_json :: string where
  "prompt_local_json =
     ''Extract all text from this image or document. Preserve the structure and format as much as possible.''"

definition convert_local_json :: "env \<Rightarrow> outcome io" where
  "convert_local_json env =
     (case prepareConversion env of
        None \<Rightarrow> declined
      | Some folderPath \<Rightarrow>
          if folderPath = [] then declined
          else
            io_then (emit (Notice ''Converting file with GLM-OCR...''))
              (try_catch
                 (io_bind (read_file env) (\<lambda>fileData.
                  io_bind (send env (chat_request env prompt_local_json fileData)) (\<lambda>response.
                  handle_response_local env folderPath response)))
                 transport_failed))"

text \<open>\<^verbatim>\<open>testConnection\<close>, lines 179 to 216.\<close>

definition testConnection_local_json :: "env \<Rightarrow> bool \<Rightarrow> bool io" where
  "testConnection_local_json env silent =
     try_catch
       (io_bind (send env (get_request (''http://'' @ endpoint env @ ''/models'') [])) (\<lambda>response.
        if resp_status response = 200
        then io_then (notify silent ''GLM-OCR connection successful!'') (io_return True)
        else io_bind (alt_attempt env silent) (\<lambda>early.
             case early of
               Some b \<Rightarrow> io_return b
             | None \<Rightarrow>
                 io_then (notify silent
                            (''Error connecting to GLM-OCR: '' @ show_int (resp_status response)))
                   (io_return False))))
       (\<lambda>error. io_then (notify silent ''Error connecting to GLM-OCR'') (io_return False))"

section \<open>The cloud variant (\<^verbatim>\<open>src/unnamed/part_000\<close>)\<close>

definition cloud_request :: "string \<Rightarrow> env \<Rightarrow> byte list \<Rightarrow> request" where
  "cloud_request apiKey env fileData =
     \<lparr>req_url = ''https://open.bigmodel.cn/api/paas/v4/layout_parsing'',
      req_method = ''POST'',
      req_throw = False,
      req_headers = [(''Authorization'', apiKey), (''Content-Type'', ''application/json'')],
      req_body =
        Some (JsonText (JObj [(''model'', JStr ''glm-ocr''), (''file'', JStr (dataUri env fileData))]))\<rparr>"

text \<open>
  A status other than 200 (lines 77 to 99):
  \<^verbatim>\<open>
  try {
    const errorData = JSON.parse(response.text) as GLMOCRMaaSErrorResponse;
    const errorMsg = errorData.msg || `HTTP ${response.status}`;
    new Notice(`GLM-OCR conversion failed: ${errorMsg}`);
    return false;
  } catch (parseErr) { ... }
  \<close>
\<close>

definition error_response_cloud :: "env \<Rightarrow> response \<Rightarrow> outcome io" where
  "error_response_cloud env response =
     try_catch
       (io_bind (lift (JSON_parse env (resp_text response))) (\<lambda>errorData.
        io_bind (lift (get_prop errorData ''msg'')) (\<lambda>msg.
        let errorMsg = js_or msg (JStr (''HTTP '' @ show_int (resp_status response)))
        in io_bind (lift (to_string errorMsg)) (\<lambda>rendered.
           fail HttpError rendered))))
       (\<lambda>parseErr. fail HttpError (raw_text_message response))"

text \<open>
  Status 200 (lines 101 to 160):
  \<^verbatim>\<open>
  try {
    const responseData = JSON.parse(response.text) as GLMOCRMaaSSuccessResponse;
    if (responseData.code !== 0) {
      new Notice(`GLM-OCR conversion failed: ${responseData.msg}`);
      return false;
    }
    const ocrText = responseData.data?.md_result || '';
    if (!ocrText) {
      new Notice('GLM-OCR conversion failed: No text extracted');
      return false;
    }
    const conversionResult: ConversionResult = {
      success: true, markdown: ocrText, images: {},
      metadata: { model: 'GLM-OCR (cloud)', source_file: file.name },
    };
    ...
    return true;
  } catch (parseError) { ... }
  \<close>
\<close>

definition success_response_cloud :: "env \<Rightarrow> string \<Rightarrow> response \<Rightarrow> outcome io" where
  "success_response_cloud env folderPath response =
     try_catch
       (io_bind (lift (JSON_parse env (resp_text response))) (\<lambda>responseData.
        io_bind (lift (get_prop responseData ''code'')) (\<lambda>code.
        if code \<noteq> JNum ''0''
        then io_bind (lift (get_prop responseData ''msg'')) (\<lambda>msg.
             io_bind (lift (to_string msg)) (\<lambda>rendered.
             fail BackendError rendered))
        else io_bind (lift (get_prop responseData ''data'')) (\<lambda>data.
             let ocrText = js_or (opt_chain data ''md_result'') (JStr [])
             in if \<not> truthy ocrText then fail EmptyResult ''No text extracted''
                else finish env folderPath
                       \<lparr>cr_success = True, cr_markdown = ocrText, cr_images = [],
                        cr_model = ''GLM-OCR (cloud)'', cr_source_file = file_name env\<rparr>))))
       (\<lambda>parseError. parse_failed)"

definition handle_response_cloud :: "env \<Rightarrow> string \<Rightarrow> response \<Rightarrow> outcome io" where
  "handle_response_cloud env folderPath response =
     (if resp_status response \<noteq> 200 then error_response_cloud env response
      else success_response_cloud env folderPath response)"

text \<open>
  \<^verbatim>\<open>if (!apiKey)\<close> holds for \<^verbatim>\<open>undefined\<close> and for the empty string. In \<^verbatim>\<open>convert\<close>
  (lines 46 to 52):
  \<^verbatim>\<open>
  new Notice('Error: GLM-OCR API key not configured. Please set it in plugin settings.');
  return false;
  \<close>
\<close>

definition key_missing_notice :: string where
  "key_missing_notice = ''Error: GLM-OCR API key not configured. Please set it in plugin settings.''"

definition config_failed :: "outcome io" where
  "config_failed =
     io_then (emit (Notice key_missing_notice)) (io_return (Failure ConfigError key_missing_notice))"

text \<open>\<^verbatim>\<open>convert\<close>, lines 29 to 170.\<close>

definition convert_cloud :: "env \<Rightarrow> outcome io" where
  "convert_cloud env =
     (case prepareConversion env of
        None \<Rightarrow> declined
      | Some folderPath \<Rightarrow>
          if folderPath = [] then declined
          else
            io_then (emit (Notice (if isPDF env then ''Converting PDF with GLM-OCR (cloud API)...''
                                   else ''Converting image with GLM-OCR (cloud API)...'')))
              (try_catch
                 (case glmocrApiKey env of
                    None \<Rightarrow> config_failed
                  | Some apiKey \<Rightarrow>
                      if apiKey = [] then config_failed
                      else
                        io_bind (read_file env) (\<lambda>fileData.
                        io_bind (send env (cloud_request apiKey env fileData)) (\<lambda>response.
                        handle_response_cloud env folderPath response)))
                 transport_failed))"

text \<open>
  \<^verbatim>\<open>testConnection\<close>, lines 172 to 209. There is one request and no second attempt.
  \<^verbatim>\<open>response.text?.substring(0, 100) || 'No response'\<close> is the first hundred code units
  of the text, or the default when the text is empty.
\<close>

definition text_or_no_response :: "response \<Rightarrow> string" where
  "text_or_no_response response =
     (if substring0 (resp_text response) 100 \<noteq> [] then substring0 (resp_text response) 100
      else ''No response'')"

definition message_or_unknown :: "js_error \<Rightarrow> string" where
  "message_or_unknown error =
     (if error_message error \<noteq> [] then error_message error else ''Unknown error'')"

definition key_not_configured :: "bool \<Rightarrow> bool io" where
  "key_not_configured silent =
     io_then (notify silent ''Error: API key not configured'') (io_return False)"

definition testConnection_cloud :: "env \<Rightarrow> bool \<Rightarrow> bool io" where
  "testConnection_cloud env silent =
     (case glmocrApiKey env of
        None \<Rightarrow> key_not_configured silent
      | Some apiKey \<Rightarrow>
          if apiKey = [] then key_not_configured silent
          else
            try_catch
              (io_bind (send env (get_request ''https://open.bigmodel.cn/api/paas/v4/models''
                                    [(''Authorization'', apiKey)])) (\<lambda>response.
               if resp_status response = 200
               then io_then (notify silent ''GLM-OCR API key valid!'') (io_return True)
               else io_then (notify silent
                               (''API key error: '' @ ''HTTP '' @ show_int (resp_status response) @ '': ''
                                  @ text_or_no_response response))
                      (io_return False)))
              (\<lambda>error. io_then (notify silent (''Connection failed: '' @ message_or_unknown error))
                          (io_return False)))"

section \<open>The local multipart variant (\<^verbatim>\<open>src/unnamed/part_001\<close>)\<close>

subsection \<open>The multipart body\<close>

text \<open>
  \<^verbatim>\<open>new TextEncoder().encode(part)\<close> is UTF-8: a code unit below 128 is one byte, a code
  unit from 128 to 255 is two.
\<close>

definition utf8_char :: "char \<Rightarrow> byte list" where
  "utf8_char c =
     (let n = (of_char c :: nat)
      in if n < 128 then [of_nat n] else [of_nat (192 + n div 64), of_nat (128 + n mod 64)])"

definition TextEncoder_encode :: "string \<Rightarrow> byte list" where
  "TextEncoder_encode s = concat (map utf8_char s)"

definition CRLF :: string where
  "CRLF = [CHR 0x0D, CHR 0x0A]"

definition quoted :: "string \<Rightarrow> string" where
  "quoted s = CHR 0x22 # s @ [CHR 0x22]"

text \<open>
  \<^verbatim>\<open>'----WebKitFormBoundary' + Math.random().toString(36).substring(2)\<close>
\<close>

definition boundary :: "env \<Rightarrow> string" where
  "boundary env = ''----WebKitFormBoundary'' @ drop 2 (random36 env)"

definition prompt_pdf :: string where
  "prompt_pdf =
     ''Extract all text from this document. Preserve the structure, tables, and formatting as much as possible.''"

text \<open>
  The array \<^verbatim>\<open>parts\<close> after its five \<^verbatim>\<open>push\<close>es (lines 57 to 75): a string is \<open>Inl\<close>, the
  byte array of the file is \<open>Inr\<close>.
\<close>

definition parts :: "string \<Rightarrow> string \<Rightarrow> byte list \<Rightarrow> (string + byte list) list" where
  "parts bdry name fileData =
     [Inl (''--'' @ bdry @ CRLF @
           ''Content-Disposition: form-data; name='' @ quoted ''file'' @ ''; filename='' @ quoted name @ CRLF @
           ''Content-Type: application/pdf'' @ CRLF @ CRLF),
      Inr fileData,
      Inl CRLF,
      Inl (''--'' @ bdry @ CRLF @
           ''Content-Disposition: form-data; name='' @ quoted ''prompt'' @ CRLF @ CRLF @
           prompt_pdf @ CRLF),
      Inl (''--'' @ bdry @ ''--'' @ CRLF)]"

text \<open>
  The three loops of lines 78 to 99.
  \<^verbatim>\<open>
  const bodyParts = [];
  for (const part of parts) {
    if (typeof part === 'string') bodyParts.push(new TextEncoder().encode(part));
    else bodyParts.push(part);
  }
  let totalLength = 0;
  for (const part of bodyParts) totalLength += part.length;
  const body = new Uint8Array(totalLength);
  let offset = 0;
  for (const part of bodyParts) { body.set(part, offset); offset += part.length; }
  \<close>
  \<^verbatim>\<open>body.set(part, offset)\<close> overwrites \<^verbatim>\<open>part.length\<close> bytes from \<^verbatim>\<open>offset\<close> on, and raises a
  \<^verbatim>\<open>RangeError\<close> when they do not fit.
\<close>

fun encode_parts :: "(string + byte list) list \<Rightarrow> byte list list \<Rightarrow> byte list list" where
  "encode_parts [] bodyParts = bodyParts"
| "encode_parts (part # rest) bodyParts =
     encode_parts rest
       (bodyParts @ [case part of Inl s \<Rightarrow> TextEncoder_encode s | Inr bytes \<Rightarrow> bytes])"

fun total_length :: "byte list list \<Rightarrow> nat \<Rightarrow> nat" where
  "total_length [] totalLength = totalLength"
| "total_length (part # rest) totalLength = total_length rest (totalLength + length part)"

definition RangeError :: js_error where
  "RangeError = Thrown ''offset is out of bounds''"

fun set_parts :: "byte list list \<Rightarrow> nat \<Rightarrow> byte list \<Rightarrow> js_error + byte list" where
  "set_parts [] offset body = Inr body"
| "set_parts (part # rest) offset body =
     (if length body < offset + length part then Inl RangeError
      else set_parts rest (offset + length part)
             (take offset body @ part @ drop (offset + length part) body))"

definition multipart_body :: "string \<Rightarrow> string \<Rightarrow> byte list \<Rightarrow> js_error + byte list" where
  "multipart_body bdry name fileData =
     (let bodyParts = encode_parts (parts bdry name fileData) [];
          totalLength = total_length bodyParts 0
      in set_parts bodyParts 0 (replicate totalLength 0))"

definition multipart_request :: "env \<Rightarrow> byte list \<Rightarrow> request" where
  "multipart_request env body =
     \<lparr>req_url = ''http://'' @ endpoint env @ ''/v1/chat/completions'',
      req_method = ''POST'',
      req_throw = False,
      req_headers = [(''Content-Type'', ''multipart/form-data; boundary='' @ boundary env)],
      req_body = Some (Binary body)\<rparr>"

subsection \<open>\<^verbatim>\<open>convert\<close> (lines 31 to 239) and \<^verbatim>\<open>testConnection\<close> (lines 241 to 285)\<close>

definition prompt_image :: string where
  "prompt_image =
     ''Extract all text from this image. Preserve the structure and format as much as possible.''"

definition convert_local_multipart :: "env \<Rightarrow> outcome io" where
  "convert_local_multipart env =
     (case prepareConversion env of
        None \<Rightarrow> declined
      | Some folderPath \<Rightarrow>
          if folderPath = [] then declined
          else
            io_then (emit (Notice (if isPDF env
                                   then ''Converting PDF with GLM-OCR (this may take a while)...''
                                   else ''Converting file with GLM-OCR...'')))
              (try_catch
                 (io_bind (read_file env) (\<lambda>fileData.
                  io_bind (if isPDF env
                           then io_bind (lift (multipart_body (boundary env) (file_name env) fileData))
                                  (\<lambda>body. send env (multipart_request env body))
                           else send env (chat_request env prompt_image fileData)) (\<lambda>response.
                  handle_response_local env folderPath response)))
                 transport_failed))"

definition testConnection_local_multipart :: "env \<Rightarrow> bool \<Rightarrow> bool io" where
  "testConnection_local_multipart env silent =
     try_catch
       (io_bind (send env (get_request (''http://'' @ endpoint env @ ''/models'') [])) (\<lambda>response.
        if resp_status response = 200
        then io_then (notify silent ''GLM-OCR connection successful!'') (io_return True)
        else io_bind (alt_attempt env silent) (\<lambda>early.
             case early of
               Some b \<Rightarrow> io_return b
             | None \<Rightarrow>
                 io_then (notify silent
                            (''Error: '' @ ''HTTP '' @ show_int (resp_status response) @ '': ''
                               @ text_or_no_response response))
                   (io_return False))))
       (\<lambda>error. io_then (notify silent (''Connection failed: '' @ message_or_unknown error))
                   (io_return False))"

section \<open>The three variants as one adapter\<close>

datatype backend = Cloud | LocalJson | LocalMultipart

fun convert :: "backend \<Rightarrow> env \<Rightarrow> outcome io" where
  "convert Cloud env = convert_cloud env"
| "convert LocalJson env = convert_local_json env"
| "convert LocalMultipart env = convert_local_multipart env"

fun testConnection :: "backend \<Rightarrow> env \<Rightarrow> bool \<Rightarrow> bool io" where
  "testConnection Cloud env silent = testConnection_cloud env silent"
| "testConnection LocalJson env silent = testConnection_local_json env silent"
| "testConnection LocalMultipart env silent = testConnection_local_multipart env silent"

text \<open>
  The parts of \<^verbatim>\<open>convert\<close> by variant: the notice it opens with, and what it does with a
  response.
\<close>

fun start_notice :: "backend \<Rightarrow> env \<Rightarrow> string" where
  "start_notice Cloud env =
     (if isPDF env then ''Converting PDF with GLM-OCR (cloud API)...''
      else ''Converting image with GLM-OCR (cloud API)...'')"
| "start_notice LocalJson env = ''Converting file with GLM-OCR...''"
| "start_notice LocalMultipart env =
     (if isPDF env then ''Converting PDF with GLM-OCR (this may take a while)...''
      else ''Converting file with GLM-OCR...'')"

fun handle_response :: "backend \<Rightarrow> env \<Rightarrow> string \<Rightarrow> response \<Rightarrow> outcome io" where
  "handle_response Cloud env folderPath response = handle_response_cloud env folderPath response"
| "handle_response LocalJson env folderPath response = handle_response_local env folderPath response"
| "handle_response LocalMultipart env folderPath response =
     handle_response_local env folderPath response"


section \<open>The vocabulary of the specification\<close>

text \<open>
  The definitions of this section do not come from the sources. They say, over the
  types above, what the properties below speak about: the requests and answers found
  in a trace, the envelopes of the wire contracts (specification, section 6), and the
  layout of a multipart body.
\<close>

subsection \<open>Reading a trace\<close>

fun is_notice :: "event \<Rightarrow> bool" where
  "is_notice (Notice m) = True"
| "is_notice ev = False"

text \<open>The requests a call issued, the answers it received and the exceptions it met.\<close>

fun requests :: "event list \<Rightarrow> request list" where
  "requests [] = []"
| "requests (Http rq r # evs) = rq # requests evs"
| "requests (ev # evs) = requests evs"

fun responses :: "event list \<Rightarrow> response list" where
  "responses [] = []"
| "responses (Http rq (Inr r) # evs) = r # responses evs"
| "responses (ev # evs) = responses evs"

fun refusals :: "event list \<Rightarrow> js_error list" where
  "refusals [] = []"
| "refusals (Http rq (Inl e) # evs) = e # refusals evs"
| "refusals (ev # evs) = refusals evs"

text \<open>The conversion results handed to \<^verbatim>\<open>processConversionResult\<close>.\<close>

fun handed_on :: "event list \<Rightarrow> conversion_result list" where
  "handed_on [] = []"
| "handed_on (ProcessResult cr f # evs) = cr # handed_on evs"
| "handed_on (ev # evs) = handed_on evs"

text \<open>A call received the response \<open>r\<close>: one of its requests was answered with it.\<close>

definition received :: "'a io \<Rightarrow> response \<Rightarrow> bool" where
  "received m r = (r \<in> set (responses (snd m)))"

text \<open>A computation that issues no request, and one that does not throw.\<close>

definition quiet :: "'a io \<Rightarrow> bool" where
  "quiet m = (requests (snd m) = [])"

definition returns :: "'a io \<Rightarrow> bool" where
  "returns m = (case fst m of Inl e \<Rightarrow> False | Inr x \<Rightarrow> True)"

subsection \<open>Envelopes\<close>

text \<open>
  A member of a JSON object, or the first element of a JSON array, and a path of such
  steps.
\<close>

fun json_member :: "jsval \<Rightarrow> string \<Rightarrow> jsval option" where
  "json_member (JObj kvs) k = map_of kvs k"
| "json_member (JArr xs) k = (if k = ''0'' then (case xs of [] \<Rightarrow> None | x # ys \<Rightarrow> Some x) else None)"
| "json_member v k = None"

fun json_path :: "jsval \<Rightarrow> string list \<Rightarrow> jsval option" where
  "json_path v [] = Some v"
| "json_path v (k # ks) = (case json_member v k of None \<Rightarrow> None | Some w \<Rightarrow> json_path w ks)"

text \<open>
  The field that carries the extracted text: \<^verbatim>\<open>data.md_result\<close> in the envelope of the
  cloud backend, \<^verbatim>\<open>choices[0].message.content\<close> in the envelope of a local server.
\<close>

fun text_path :: "backend \<Rightarrow> string list" where
  "text_path Cloud = [''data'', ''md_result'']"
| "text_path LocalJson = [''choices'', ''0'', ''message'', ''content'']"
| "text_path LocalMultipart = [''choices'', ''0'', ''message'', ''content'']"

definition extracted_field :: "backend \<Rightarrow> jsval \<Rightarrow> jsval option" where
  "extracted_field b v = json_path v (text_path b)"

text \<open>
  The success indicator: the cloud envelope carries \<^verbatim>\<open>code\<close>, which is the number zero on
  success; the envelope of a local server carries none.
\<close>

fun indicates_success :: "backend \<Rightarrow> jsval \<Rightarrow> bool" where
  "indicates_success Cloud v = (json_path v [''code''] = Some (JNum ''0''))"
| "indicates_success LocalJson v = True"
| "indicates_success LocalMultipart v = True"

text \<open>The value at a path, \<^verbatim>\<open>undefined\<close> where the path leads nowhere.\<close>

definition value_at :: "jsval \<Rightarrow> string list \<Rightarrow> jsval" where
  "value_at v ks = (case json_path v ks of None \<Rightarrow> JUndefined | Some w \<Rightarrow> w)"

text \<open>
  The message of an error envelope: \<^verbatim>\<open>{code, msg}\<close> for the cloud backend,
  \<^verbatim>\<open>{error: {message, type}}\<close> or else \<^verbatim>\<open>{message}\<close> for a local server. The envelope
  carries a message when one of these fields holds a truthy value (a non-empty string,
  when the field is typed as the contract has it); its message is the first such value.
\<close>

fun message_paths :: "backend \<Rightarrow> string list list" where
  "message_paths Cloud = [[''msg'']]"
| "message_paths LocalJson = [[''error'', ''message''], [''message'']]"
| "message_paths LocalMultipart = [[''error'', ''message''], [''message'']]"

definition envelope_message :: "backend \<Rightarrow> jsval \<Rightarrow> jsval option" where
  "envelope_message b v = find truthy (map (value_at v) (message_paths b))"

text \<open>
  The failure message made of the status code and the raw text of the body, cut after a
  hundred code units.
\<close>

definition truncated_message :: "response \<Rightarrow> string" where
  "truncated_message response =
     ''HTTP '' @ show_int (resp_status response) @ '' - '' @
       (if resp_text response = [] then ''No response details'' else take 100 (resp_text response))"

text \<open>
  The failure message for a response whose status is not 200:
  \<^item> the body is not JSON, or is \<^verbatim>\<open>null\<close>: the status code and the raw text;
  \<^item> the body is JSON and carries no message: \<^verbatim>\<open>HTTP\<close> and the status code;
  \<^item> the body is JSON and carries a message: the message as \<^verbatim>\<open>String\<close> renders it (a text
    is rendered as it is), and the status code and the raw text when it cannot be
    rendered.
\<close>

definition http_failure_message :: "backend \<Rightarrow> env \<Rightarrow> response \<Rightarrow> string" where
  "http_failure_message b env response =
     (case JSON_parse env (resp_text response) of
        Inl e \<Rightarrow> truncated_message response
      | Inr v \<Rightarrow>
          if v = JNull \<or> v = JUndefined then truncated_message response
          else (case envelope_message b v of
                  None \<Rightarrow> ''HTTP '' @ show_int (resp_status response)
                | Some mv \<Rightarrow>
                    (case to_string mv of
                       Inl e \<Rightarrow> truncated_message response
                     | Inr s \<Rightarrow> s)))"


text \<open>The model label of a backend, and the conversion result for an extracted value.\<close>

fun model_label :: "backend \<Rightarrow> string" where
  "model_label Cloud = ''GLM-OCR (cloud)''"
| "model_label LocalJson = ''GLM-OCR (mlx-vlm)''"
| "model_label LocalMultipart = ''GLM-OCR (mlx-vlm)''"

definition success_result :: "backend \<Rightarrow> env \<Rightarrow> jsval \<Rightarrow> conversion_result" where
  "success_result b env md =
     \<lparr>cr_success = True, cr_markdown = md, cr_images = [],
      cr_model = model_label b, cr_source_file = file_name env\<rparr>"

text \<open>
  The steps after the conversion result is handed on (writing the note, moving and
  deleting the original) all complete.
\<close>

definition vault_steps_complete :: "env \<Rightarrow> string \<Rightarrow> conversion_result \<Rightarrow> bool" where
  "vault_steps_complete env folderPath cr =
     (processConversionResult env cr folderPath = None
      \<and> (if movePDFtoFolder env then vault_rename env (folderPath @ file_name env) = None else True)
      \<and> (if deleteOriginal env then deleteOriginalFile env = None else True))"

subsection \<open>The request of a backend\<close>

text \<open>The base address of a backend followed by its fixed sub-path.\<close>

fun post_url :: "backend \<Rightarrow> env \<Rightarrow> string" where
  "post_url Cloud env = ''https://open.bigmodel.cn/api/paas/v4/layout_parsing''"
| "post_url LocalJson env = ''http://'' @ endpoint env @ ''/chat/completions''"
| "post_url LocalMultipart env =
     ''http://'' @ endpoint env @ (if isPDF env then ''/v1/chat/completions'' else ''/chat/completions'')"

text \<open>The credential of the settings, as the text put into the request header.\<close>

definition api_key :: "env \<Rightarrow> string" where
  "api_key env = (case glmocrApiKey env of None \<Rightarrow> [] | Some k \<Rightarrow> k)"

text \<open>
  A call has a document and a profile when the folder is prepared, the credential is
  there (cloud) and the file was read.
\<close>

definition has_folder :: "env \<Rightarrow> bool" where
  "has_folder env = (case prepareConversion env of None \<Rightarrow> False | Some f \<Rightarrow> f \<noteq> [])"

definition has_key :: "env \<Rightarrow> bool" where
  "has_key env = (case glmocrApiKey env of None \<Rightarrow> False | Some k \<Rightarrow> k \<noteq> [])"

fun has_profile :: "backend \<Rightarrow> env \<Rightarrow> bool" where
  "has_profile Cloud env = has_key env"
| "has_profile LocalJson env = True"
| "has_profile LocalMultipart env = True"

definition has_document :: "env \<Rightarrow> bool" where
  "has_document env = (has_folder env \<and> (case readBinary env of Inl e \<Rightarrow> False | Inr d \<Rightarrow> True))"

definition file_bytes :: "env \<Rightarrow> byte list" where
  "file_bytes env = (case readBinary env of Inl e \<Rightarrow> [] | Inr d \<Rightarrow> d)"

definition folder :: "env \<Rightarrow> string" where
  "folder env = (case prepareConversion env of None \<Rightarrow> [] | Some f \<Rightarrow> f)"

text \<open>The two addresses \<^verbatim>\<open>testConnection\<close> may ask, and the requests it may send.\<close>

fun primary_url :: "backend \<Rightarrow> env \<Rightarrow> string" where
  "primary_url Cloud env = ''https://open.bigmodel.cn/api/paas/v4/models''"
| "primary_url LocalJson env = ''http://'' @ endpoint env @ ''/models''"
| "primary_url LocalMultipart env = ''http://'' @ endpoint env @ ''/models''"

definition fallback_url :: "env \<Rightarrow> string" where
  "fallback_url env = ''http://'' @ endpoint env @ ''/''"

fun models_probe :: "backend \<Rightarrow> env \<Rightarrow> request" where
  "models_probe Cloud env = get_request (primary_url Cloud env) [(''Authorization'', api_key env)]"
| "models_probe LocalJson env = get_request (primary_url LocalJson env) []"
| "models_probe LocalMultipart env = get_request (primary_url LocalMultipart env) []"

definition root_probe :: "env \<Rightarrow> request" where
  "root_probe env = get_request (fallback_url env) []"

text \<open>
  What the server does with a request: it answers with status 200, or it answers with
  another status; otherwise the transport throws (a refused connection among the causes).
\<close>

definition answers_200 :: "env \<Rightarrow> request \<Rightarrow> bool" where
  "answers_200 env rq = (case requestUrl env rq of Inl e \<Rightarrow> False | Inr r \<Rightarrow> resp_status r = 200)"

definition answers_otherwise :: "env \<Rightarrow> request \<Rightarrow> bool" where
  "answers_otherwise env rq =
     (case requestUrl env rq of Inl e \<Rightarrow> False | Inr r \<Rightarrow> resp_status r \<noteq> 200)"

subsection \<open>Multipart form data\<close>

text \<open>
  The layout of a \<^verbatim>\<open>multipart/form-data\<close> body (RFC 7578): every part opens with two
  dashes and the boundary, carries its headers, an empty line and its payload, and
  ends with a line break; the body closes with two dashes, the boundary and two dashes.
\<close>

record form_part =
  part_name :: string
  part_filename :: "string option"
  part_content_type :: "string option"
  part_payload :: "byte list"

definition part_headers :: "form_part \<Rightarrow> string" where
  "part_headers p =
     ''Content-Disposition: form-data; name='' @ quoted (part_name p) @
       (case part_filename p of None \<Rightarrow> [] | Some f \<Rightarrow> ''; filename='' @ quoted f) @ CRLF @
       (case part_content_type p of None \<Rightarrow> [] | Some t \<Rightarrow> ''Content-Type: '' @ t @ CRLF)"

definition encode_part :: "string \<Rightarrow> form_part \<Rightarrow> byte list" where
  "encode_part bdry p =
     TextEncoder_encode (''--'' @ bdry @ CRLF @ part_headers p @ CRLF) @ part_payload p @
     TextEncoder_encode CRLF"

definition closing_marker :: "string \<Rightarrow> byte list" where
  "closing_marker bdry = TextEncoder_encode (''--'' @ bdry @ ''--'' @ CRLF)"

definition multipart_form_data :: "string \<Rightarrow> form_part list \<Rightarrow> byte list" where
  "multipart_form_data bdry ps = concat (map (encode_part bdry) ps) @ closing_marker bdry"

definition file_part :: "string \<Rightarrow> byte list \<Rightarrow> form_part" where
  "file_part name fileData =
     \<lparr>part_name = ''file'', part_filename = Some name,
      part_content_type = Some ''application/pdf'', part_payload = fileData\<rparr>"

definition prompt_part :: form_part where
  "prompt_part =
     \<lparr>part_name = ''prompt'', part_filename = None, part_content_type = None,
      part_payload = TextEncoder_encode prompt_pdf\<rparr>"

subsection \<open>The request of a call\<close>

text \<open>
  The request of a backend for the bytes of a file; for a PDF file the multipart
  variant sends the form data of the two parts above.
\<close>

fun post_request :: "backend \<Rightarrow> env \<Rightarrow> byte list \<Rightarrow> request" where
  "post_request Cloud env fileData = cloud_request (api_key env) env fileData"
| "post_request LocalJson env fileData = chat_request env prompt_local_json fileData"
| "post_request LocalMultipart env fileData =
     (if isPDF env
      then multipart_request env
             (multipart_form_data (boundary env) [file_part (file_name env) fileData, prompt_part])
      else chat_request env prompt_image fileData)"


section \<open>Example runs\<close>

text \<open>
  The scenarios of the specification (section 8), as inputs of a call. The file is the
  image \<^verbatim>\<open>scan.png\<close> of four bytes; the folder is prepared; a server answers every
  request with status 200 and the body
  \<^verbatim>\<open>{"choices":[{"message":{"content":"Hello World"}}]}\<close>; the vault operations complete.
  \<open>example_parse\<close> is \<^verbatim>\<open>JSON.parse\<close> on the bodies of the scenarios, and raises on any
  other text.
\<close>

definition hello_body :: string where
  "hello_body =
     ''{'' @ quoted ''choices'' @ '':[{'' @ quoted ''message'' @ '':{'' @ quoted ''content'' @ '':''
       @ quoted ''Hello World'' @ ''}}]}''"

definition hello_value :: jsval where
  "hello_value =
     JObj [(''choices'', JArr [JObj [(''message'', JObj [(''content'', JStr ''Hello World'')])]])]"

text \<open>\<^verbatim>\<open>{"code":1,"msg":"quota exceeded"}\<close>\<close>

definition quota_body :: string where
  "quota_body =
     ''{'' @ quoted ''code'' @ '':1,'' @ quoted ''msg'' @ '':'' @ quoted ''quota exceeded'' @ ''}''"

definition quota_value :: jsval where
  "quota_value = JObj [(''code'', JNum ''1''), (''msg'', JStr ''quota exceeded'')]"

text \<open>\<^verbatim>\<open>{"code":0,"msg":"ok","data":{"md_result":"# Title"}}\<close>\<close>

definition cloud_body :: string where
  "cloud_body =
     ''{'' @ quoted ''code'' @ '':0,'' @ quoted ''msg'' @ '':'' @ quoted ''ok'' @ '','' @ quoted ''data''
       @ '':{'' @ quoted ''md_result'' @ '':'' @ quoted ''# Title'' @ ''}}''"

definition cloud_value :: jsval where
  "cloud_value =
     JObj [(''code'', JNum ''0''), (''msg'', JStr ''ok''),
           (''data'', JObj [(''md_result'', JStr ''# Title'')])]"

text \<open>\<^verbatim>\<open>{"choices":[{"message":{"content":""}}]}\<close>: the model produced no text.\<close>

definition no_text_body :: string where
  "no_text_body =
     ''{'' @ quoted ''choices'' @ '':[{'' @ quoted ''message'' @ '':{'' @ quoted ''content'' @ '':''
       @ quoted [] @ ''}}]}''"

definition no_text_value :: jsval where
  "no_text_value = JObj [(''choices'', JArr [JObj [(''message'', JObj [(''content'', JStr [])])]])]"

text \<open>\<^verbatim>\<open>{"error":{"message":"model not loaded","type":"server_error"}}\<close>\<close>

definition error_body :: string where
  "error_body =
     ''{'' @ quoted ''error'' @ '':{'' @ quoted ''message'' @ '':'' @ quoted ''model not loaded'' @ '',''
       @ quoted ''type'' @ '':'' @ quoted ''server_error'' @ ''}}''"

definition error_value :: jsval where
  "error_value =
     JObj [(''error'', JObj [(''message'', JStr ''model not loaded''), (''type'', JStr ''server_error'')])]"

text \<open>\<^verbatim>\<open>{"detail":"Not Found"}\<close>: a body that is JSON and has none of the message fields.\<close>

definition detail_body :: string where
  "detail_body = ''{'' @ quoted ''detail'' @ '':'' @ quoted ''Not Found'' @ ''}''"

definition detail_value :: jsval where
  "detail_value = JObj [(''detail'', JStr ''Not Found'')]"

text \<open>
  \<^verbatim>\<open>{"code":1,"msg":{"toString":1}}\<close>: the message is an object that cannot be rendered as
  text.
\<close>

definition odd_body :: string where
  "odd_body =
     ''{'' @ quoted ''code'' @ '':1,'' @ quoted ''msg'' @ '':{'' @ quoted ''toString'' @ '':1}}''"

definition odd_value :: jsval where
  "odd_value = JObj [(''code'', JNum ''1''), (''msg'', JObj [(''toString'', JNum ''1'')])]"

definition example_parse :: "string \<Rightarrow> js_error + jsval" where
  "example_parse s =
     (if s = hello_body then Inr hello_value
      else if s = quota_body then Inr quota_value
      else if s = cloud_body then Inr cloud_value
      else if s = no_text_body then Inr no_text_value
      else if s = error_body then Inr error_value
      else if s = detail_body then Inr detail_value
      else if s = odd_body then Inr odd_value
      else Inl (Thrown ''Unexpected token''))"

definition answer :: "int \<Rightarrow> string \<Rightarrow> request \<Rightarrow> js_error + response" where
  "answer st body rq = Inr \<lparr>resp_status = st, resp_text = body\<rparr>"

definition refuse :: "request \<Rightarrow> js_error + response" where
  "refuse rq = Inl (Thrown ''net::ERR_CONNECTION_REFUSED'')"

definition env_scan :: env where
  "env_scan =
     \<lparr>glmocrEndpoint = None,
      glmocrApiKey = Some ''secret'',
      movePDFtoFolder = False,
      deleteOriginal = False,
      file_name = ''scan.png'',
      prepareConversion = Some ''notes/scan/'',
      readBinary = Inr [137, 80, 78, 71],
      requestUrl = answer 200 hello_body,
      JSON_parse = example_parse,
      processConversionResult = (\<lambda>cr f. None),
      vault_rename = (\<lambda>p. None),
      deleteOriginalFile = None,
      random36 = ''0.4fzyo82mvyr''\<rparr>"

text \<open>The same call when the server answers otherwise, or not at all.\<close>

definition env_with :: "(request \<Rightarrow> js_error + response) \<Rightarrow> env" where
  "env_with server = env_scan\<lparr>requestUrl := server\<rparr>"

text \<open>A PDF file of five bytes, and a call without a credential.\<close>

definition env_pdf :: env where
  "env_pdf = env_scan\<lparr>file_name := ''paper.pdf'', readBinary := Inr [37, 80, 68, 70, 45]\<rparr>"

definition env_no_key :: env where
  "env_no_key = env_scan\<lparr>glmocrApiKey := None\<rparr>"

text \<open>
  The settings ask to move the original into the folder of the note, and the vault
  refuses: a file of that name is already there.
\<close>

definition env_taken :: env where
  "env_taken =
     env_scan\<lparr>movePDFtoFolder := True,
              vault_rename := (\<lambda>p. Some (Thrown ''Destination file already exists!''))\<rparr>"

text \<open>
  A server that answers the address of its models with status 404 and its root with
  status 200, and one that refuses the first and would answer the second.
\<close>

definition root_only :: "request \<Rightarrow> js_error + response" where
  "root_only rq =
     (if req_url rq = ''http://localhost:8080/'' then Inr \<lparr>resp_status = 200, resp_text = ''ok''\<rparr>
      else Inr \<lparr>resp_status = 404, resp_text = ''Not Found''\<rparr>)"

definition root_after_reset :: "request \<Rightarrow> js_error + response" where
  "root_after_reset rq =
     (if req_url rq = ''http://localhost:8080/'' then Inr \<lparr>resp_status = 200, resp_text = ''ok''\<rparr>
      else Inl (Thrown ''net::ERR_CONNECTION_RESET''))"


section \<open>Base64: decoding undoes \<^verbatim>\<open>arrayBufferToBase64\<close>\<close>

subsection \<open>The loop\<close>




subsection \<open>The alphabet\<close>






subsection \<open>Six bits at a time\<close>












subsection \<open>One group\<close>




subsection \<open>The whole text\<close>







section \<open>The multipart body\<close>

subsection \<open>The three loops\<close>

lemma encode_parts_map:
  "encode_parts ps bodyParts =
     bodyParts @ map (\<lambda>part. case part of Inl s \<Rightarrow> TextEncoder_encode s | Inr bytes \<Rightarrow> bytes) ps"
  by (induction ps arbitrary: bodyParts) simp_all

lemma total_length_concat: "total_length bs n = n + length (concat bs)"
  by (induction bs arbitrary: n) simp_all

lemma set_parts_concat:
  "offset + length (concat bs) \<le> length body \<Longrightarrow>
   set_parts bs offset body =
     Inr (take offset body @ concat bs @ drop (offset + length (concat bs)) body)"
proof (induction bs arbitrary: offset body)
  case Nil
  then show ?case by simp
next
  case (Cons part rest)
  define body' where "body' = take offset body @ part @ drop (offset + length part) body"
  from Cons.prems have fits: "offset + length part \<le> length body"
    by simp
  then have len: "length body' = length body"
    by (simp add: body'_def)
  from fits have front: "take (offset + length part) body' = take offset body @ part"
    by (simp add: body'_def)
  from fits have rear: "drop (offset + length part + length (concat rest)) body' =
      drop (offset + length part + length (concat rest)) body"
    by (simp add: body'_def ac_simps)
  from Cons.prems have "offset + length part + length (concat rest) \<le> length body'"
    by (simp add: len add.assoc)
  then have "set_parts rest (offset + length part) body' =
      Inr (take (offset + length part) body' @ concat rest @
           drop (offset + length part + length (concat rest)) body')"
    by (rule Cons.IH)
  then have "set_parts rest (offset + length part) body' =
      Inr (take offset body @ concat (part # rest) @
           drop (offset + length (concat (part # rest))) body)"
    unfolding front rear by (simp add: add.assoc)
  moreover from fits have "set_parts (part # rest) offset body =
      set_parts rest (offset + length part) body'"
    by (simp add: body'_def)
  ultimately show ?case
    by (simp only:)
qed

lemma multipart_body_concat:
  "multipart_body bdry name fileData =
     Inr (concat (map (\<lambda>part. case part of Inl s \<Rightarrow> TextEncoder_encode s | Inr bytes \<Rightarrow> bytes)
                   (parts bdry name fileData)))"
  by (simp add: multipart_body_def encode_parts_map total_length_concat set_parts_concat)

subsection \<open>The layout\<close>

lemma TextEncoder_encode_append:
  "TextEncoder_encode (s @ t) = TextEncoder_encode s @ TextEncoder_encode t"
  by (simp add: TextEncoder_encode_def)

lemma TextEncoder_encode_Cons:
  "TextEncoder_encode (c # s) = utf8_char c @ TextEncoder_encode s"
  by (simp add: TextEncoder_encode_def)

lemma multipart_body_layout:
  "multipart_body bdry name fileData =
     Inr (multipart_form_data bdry [file_part name fileData, prompt_part])"
  by (simp add: multipart_body_concat parts_def multipart_form_data_def encode_part_def
      closing_marker_def part_headers_def file_part_def prompt_part_def
      TextEncoder_encode_append TextEncoder_encode_Cons)


section \<open>Traces and computations\<close>

subsection \<open>Reading a trace that was put together\<close>

lemma requests_append: "requests (xs @ ys) = requests xs @ requests ys"
  by (induction xs rule: requests.induct) simp_all

lemma responses_append: "responses (xs @ ys) = responses xs @ responses ys"
  by (induction xs rule: responses.induct) simp_all

lemma refusals_append: "refusals (xs @ ys) = refusals xs @ refusals ys"
  by (induction xs rule: refusals.induct) simp_all

lemma handed_on_append: "handed_on (xs @ ys) = handed_on xs @ handed_on ys"
  by (induction xs rule: handed_on.induct) simp_all

lemma no_requests_no_responses: "requests tr = [] \<Longrightarrow> responses tr = []"
  by (induction tr rule: responses.induct) simp_all

lemma no_requests_no_refusals: "requests tr = [] \<Longrightarrow> refusals tr = []"
  by (induction tr rule: refusals.induct) simp_all

lemma notices_no_requests: "list_all is_notice tr \<Longrightarrow> requests tr = []"
  by (induction tr rule: requests.induct) simp_all

lemma notices_not_handed_on: "list_all is_notice tr \<Longrightarrow> handed_on tr = []"
  by (induction tr rule: handed_on.induct) simp_all

subsection \<open>The exits\<close>

lemma fail_eq: "fail k m = (Inr (Failure k m), [Notice (''GLM-OCR conversion failed: '' @ m)])"
  by (simp add: fail_def io_then_def io_bind_def emit_def io_return_def)

lemma parse_failed_eq:
  "parse_failed = (Inr (Failure MalformedResponse parse_error_notice), [Notice parse_error_notice])"
  by (simp add: parse_failed_def io_then_def io_bind_def emit_def io_return_def)

lemma config_failed_eq:
  "config_failed = (Inr (Failure ConfigError key_missing_notice), [Notice key_missing_notice])"
  by (simp add: config_failed_def io_then_def io_bind_def emit_def io_return_def)

lemma declined_eq: "declined = (Inr (Failure Declined []), [])"
  by (simp add: declined_def io_return_def)

lemma transport_failed_eq:
  "\<exists>m. transport_failed e = (Inr (Failure TransportError m), [Notice (''GLM-OCR conversion failed: '' @ m)])"
  by (simp add: transport_failed_def fail_eq)

subsection \<open>After a conversion\<close>

lemma finish_complete:
  "vault_steps_complete env folderPath cr \<Longrightarrow> fst (finish env folderPath cr) = Inr (Success cr)"
  by (simp add: vault_steps_complete_def finish_def io_then_def io_bind_def io_when_def
      perform_def emit_def io_return_def split: if_splits)

lemma finish_starts:
  "\<exists>tr. snd (finish env folderPath cr) = ProcessResult cr folderPath # tr
        \<and> requests tr = [] \<and> handed_on tr = []"
  by (simp add: finish_def io_then_def io_bind_def io_when_def perform_def emit_def
      io_return_def split: option.splits)

lemma finish_requests: "requests (snd (finish env folderPath cr)) = []"
  using finish_starts [of env folderPath cr] by auto

lemma finish_handed_on: "handed_on (snd (finish env folderPath cr)) = [cr]"
  using finish_starts [of env folderPath cr] by auto

text \<open>
  The inner \<^verbatim>\<open>try\<close> block around the steps after a conversion: whatever they do, the
  call returns, and it returns \<open>Success\<close> when they complete.
\<close>

lemma guarded_finish_returns:
  "\<exists>out. fst (try_catch (finish env folderPath cr) (\<lambda>e. parse_failed)) = Inr out"
  by (cases "fst (finish env folderPath cr)") (simp_all add: try_catch_def parse_failed_eq)

lemma guarded_finish_complete:
  "vault_steps_complete env folderPath cr \<Longrightarrow>
   fst (try_catch (finish env folderPath cr) (\<lambda>e. parse_failed)) = Inr (Success cr)"
  by (simp add: try_catch_def finish_complete)

lemma guarded_finish_requests:
  "requests (snd (try_catch (finish env folderPath cr) (\<lambda>e. parse_failed))) = []"
  by (cases "fst (finish env folderPath cr)")
    (simp_all add: try_catch_def parse_failed_eq requests_append finish_requests)

lemma guarded_finish_handed_on:
  "handed_on (snd (try_catch (finish env folderPath cr) (\<lambda>e. parse_failed))) = [cr]"
  by (cases "fst (finish env folderPath cr)")
    (simp_all add: try_catch_def parse_failed_eq handed_on_append finish_handed_on)

subsection \<open>Envelopes and property reads\<close>

lemma json_member_get_prop: "json_member v k = Some w \<Longrightarrow> get_prop v k = Inr w"
  by (cases v) (auto split: if_splits list.splits)

lemma json_member_opt_chain: "json_member v k = Some w \<Longrightarrow> opt_chain v k = w"
  by (cases v) (auto split: if_splits list.splits)

lemma json_member_None_get_prop:
  "json_member (JObj kvs) k = None \<Longrightarrow> get_prop (JObj kvs) k = Inr JUndefined"
  by simp

lemma get_prop_opt_chain: "get_prop v k = Inr w \<Longrightarrow> opt_chain v k = w"
  by (cases v) auto

text \<open>A value that has a member is an object or an array: reading it never throws.\<close>

lemma json_member_get_prop_any: "json_member v k = Some w \<Longrightarrow> \<exists>u. get_prop v k' = Inr u"
  by (cases v) auto


section \<open>What \<^verbatim>\<open>convert\<close> does with a response\<close>

subsection \<open>No request, no exception\<close>

lemma quiet_return: "quiet (io_return x)"
  by (simp add: quiet_def io_return_def)

lemma quiet_lift: "quiet (lift r)"
  by (simp add: quiet_def lift_def)

lemma quiet_bind: "quiet m \<Longrightarrow> (\<And>x. quiet (f x)) \<Longrightarrow> quiet (io_bind m f)"
  by (cases "fst m") (simp_all add: quiet_def io_bind_def requests_append)

lemma quiet_try_catch: "quiet m \<Longrightarrow> (\<And>e. quiet (h e)) \<Longrightarrow> quiet (try_catch m h)"
  by (cases "fst m") (simp_all add: quiet_def try_catch_def requests_append)

lemma quiet_fail: "quiet (fail k m)"
  by (simp add: quiet_def fail_eq)

lemma quiet_parse_failed: "quiet parse_failed"
  by (simp add: quiet_def parse_failed_eq)

lemma quiet_finish: "quiet (finish env folderPath cr)"
  by (simp add: quiet_def finish_requests)

lemma returns_try_catch: "(\<And>e. returns (h e)) \<Longrightarrow> returns (try_catch m h)"
  by (cases "fst m") (simp_all add: returns_def try_catch_def)

lemma returns_fail: "returns (fail k m)"
  by (simp add: returns_def fail_eq)

lemma returns_parse_failed: "returns parse_failed"
  by (simp add: returns_def parse_failed_eq)

lemma returns_Inr: "returns m \<Longrightarrow> \<exists>x. fst m = Inr x"
  by (cases "fst m") (simp_all add: returns_def)

lemma quiet_error_response_local: "quiet (error_response_local env response)"
  unfolding error_response_local_def
  by (intro quiet_try_catch quiet_bind quiet_lift quiet_fail)
    (simp_all add: quiet_return quiet_bind quiet_lift)

lemma quiet_success_response_local: "quiet (success_response_local env folderPath response)"
  unfolding success_response_local_def Let_def
  by (intro quiet_try_catch quiet_bind quiet_lift quiet_finish quiet_parse_failed)

lemma quiet_error_response_cloud: "quiet (error_response_cloud env response)"
  unfolding error_response_cloud_def Let_def
  by (intro quiet_try_catch quiet_bind quiet_lift quiet_fail)

lemma quiet_success_response_cloud: "quiet (success_response_cloud env folderPath response)"
  unfolding success_response_cloud_def Let_def
  by (intro quiet_try_catch quiet_bind quiet_lift quiet_parse_failed)
    (simp_all add: quiet_bind quiet_lift quiet_fail quiet_finish)

lemma quiet_handle_response: "quiet (handle_response b env folderPath response)"
  by (cases b)
    (simp_all add: handle_response_local_def handle_response_cloud_def
      quiet_error_response_local quiet_success_response_local
      quiet_error_response_cloud quiet_success_response_cloud)

lemma returns_handle_response: "returns (handle_response b env folderPath response)"
  by (cases b)
    (simp_all add: handle_response_local_def handle_response_cloud_def
      error_response_local_def success_response_local_def
      error_response_cloud_def success_response_cloud_def
      returns_try_catch returns_fail returns_parse_failed)

lemma handle_response_requests: "requests (snd (handle_response b env folderPath response)) = []"
  using quiet_handle_response [of b env folderPath response] by (simp add: quiet_def)

lemma handle_response_returns: "\<exists>out. fst (handle_response b env folderPath response) = Inr out"
  by (rule returns_Inr) (rule returns_handle_response)


subsection \<open>Reading a parsed value\<close>

lemma get_prop_value_at:
  "v \<noteq> JNull \<Longrightarrow> v \<noteq> JUndefined \<Longrightarrow> k \<noteq> ''0'' \<Longrightarrow> get_prop v k = Inr (value_at v [k])"
  by (cases v) (simp_all add: value_at_def split: option.splits)

lemma get_prop_nullish: "v = JNull \<or> v = JUndefined \<Longrightarrow> get_prop v k = Inl TypeError"
  by auto

lemma opt_chain_value_at:
  assumes "k' \<noteq> ''0''"
  shows "opt_chain (value_at v [k]) k' = value_at v [k, k']"
proof (cases "json_member v k")
  case None
  then show ?thesis
    by (simp add: value_at_def)
next
  case (Some w)
  with assms show ?thesis
    by (cases w) (simp_all add: value_at_def split: option.splits)
qed

lemma io_bind_read: "io_bind (lift (Inr x)) f = f x"
  by (simp add: io_bind_def lift_def)

lemma io_bind_return: "io_bind (io_return x) f = f x"
  by (simp add: io_bind_def io_return_def)

text \<open>
  The interpolation of a value into the notice of a failure, inside a \<^verbatim>\<open>try\<close> block: when
  the value cannot be rendered, the handler runs.
\<close>

lemma render_or_catch:
  "try_catch (io_bind (lift (to_string mv)) (\<lambda>rendered. fail k rendered)) h =
     (case to_string mv of Inl e \<Rightarrow> h e | Inr s \<Rightarrow> fail k s)"
  by (cases "to_string mv") (simp_all add: try_catch_def io_bind_def lift_def fail_eq)

lemma raw_text_message_eq: "raw_text_message response = truncated_message response"
  by (simp add: raw_text_message_def truncated_message_def substring0_def)

subsection \<open>A status other than 200\<close>

lemma error_response_local_unparsed:
  "JSON_parse env (resp_text response) = Inl e \<Longrightarrow>
   error_response_local env response = fail HttpError (truncated_message response)"
  by (simp add: error_response_local_def try_catch_def io_bind_def lift_def fail_eq
      raw_text_message_eq)

lemma error_response_cloud_unparsed:
  "JSON_parse env (resp_text response) = Inl e \<Longrightarrow>
   error_response_cloud env response = fail HttpError (truncated_message response)"
  by (simp add: error_response_cloud_def try_catch_def io_bind_def lift_def fail_eq
      raw_text_message_eq)

text \<open>The body is \<^verbatim>\<open>null\<close>: reading a property of it throws, and the handler runs.\<close>

lemma error_response_local_null:
  assumes "JSON_parse env (resp_text response) = Inr v" and "v = JNull \<or> v = JUndefined"
  shows "error_response_local env response = fail HttpError (truncated_message response)"
  using assms(1) get_prop_nullish [OF assms(2)]
  by (simp add: error_response_local_def try_catch_def io_bind_def lift_def fail_eq
      raw_text_message_eq)

lemma error_response_cloud_null:
  assumes "JSON_parse env (resp_text response) = Inr v" and "v = JNull \<or> v = JUndefined"
  shows "error_response_cloud env response = fail HttpError (truncated_message response)"
  using assms(1) get_prop_nullish [OF assms(2)]
  by (simp add: error_response_cloud_def try_catch_def io_bind_def lift_def fail_eq
      raw_text_message_eq)

text \<open>The body is another value: the message is looked for, and rendered.\<close>

lemma error_response_cloud_parsed:
  assumes "JSON_parse env (resp_text response) = Inr v" and "v \<noteq> JNull" and "v \<noteq> JUndefined"
  shows "error_response_cloud env response =
     (case envelope_message Cloud v of
        None \<Rightarrow> fail HttpError (''HTTP '' @ show_int (resp_status response))
      | Some mv \<Rightarrow>
          (case to_string mv of
             Inl e \<Rightarrow> fail HttpError (truncated_message response)
           | Inr s \<Rightarrow> fail HttpError s))"
proof -
  have msg: "get_prop v ''msg'' = Inr (value_at v [''msg''])"
    using assms(2,3) by (simp add: get_prop_value_at)
  have "error_response_cloud env response =
      try_catch
        (io_bind (lift (to_string (js_or (value_at v [''msg''])
                                     (JStr (''HTTP '' @ show_int (resp_status response))))))
           (\<lambda>rendered. fail HttpError rendered))
        (\<lambda>parseErr. fail HttpError (raw_text_message response))"
    by (simp add: error_response_cloud_def assms(1) msg io_bind_read)
  then show ?thesis
    by (simp add: render_or_catch envelope_message_def js_or_def raw_text_message_eq)
qed

lemma error_response_local_parsed:
  assumes "JSON_parse env (resp_text response) = Inr v" and "v \<noteq> JNull" and "v \<noteq> JUndefined"
  shows "error_response_local env response =
     (case envelope_message LocalJson v of
        None \<Rightarrow> fail HttpError (''HTTP '' @ show_int (resp_status response))
      | Some mv \<Rightarrow>
          (case to_string mv of
             Inl e \<Rightarrow> fail HttpError (truncated_message response)
           | Inr s \<Rightarrow> fail HttpError s))"
proof -
  let ?nested = "value_at v [''error'', ''message'']"
  let ?top = "value_at v [''message'']"
  let ?errorMsg = "if truthy ?nested then ?nested
                   else if truthy ?top then ?top
                   else JStr (''HTTP '' @ show_int (resp_status response))"
  have err: "get_prop v ''error'' = Inr (value_at v [''error''])"
    and top: "get_prop v ''message'' = Inr ?top"
    using assms(2,3) by (simp_all add: get_prop_value_at)
  have nested: "opt_chain (value_at v [''error'']) ''message'' = ?nested"
    by (simp add: opt_chain_value_at)
  have "error_response_local env response =
      try_catch (io_bind (lift (to_string ?errorMsg)) (\<lambda>rendered. fail HttpError rendered))
        (\<lambda>parseErr. fail HttpError (raw_text_message response))"
    by (simp add: error_response_local_def assms(1) err top nested io_bind_read io_bind_return)
  then show ?thesis
    by (simp add: render_or_catch envelope_message_def raw_text_message_eq)
qed

subsection \<open>Status 200\<close>

lemma success_response_local_unparsed:
  "JSON_parse env (resp_text response) = Inl e \<Longrightarrow>
   success_response_local env folderPath response = parse_failed"
  by (simp add: success_response_local_def try_catch_def io_bind_def lift_def parse_failed_eq)

lemma success_response_cloud_unparsed:
  "JSON_parse env (resp_text response) = Inl e \<Longrightarrow>
   success_response_cloud env folderPath response = parse_failed"
  by (simp add: success_response_cloud_def try_catch_def io_bind_def lift_def parse_failed_eq)

text \<open>
  The value \<^verbatim>\<open>responseData.choices?.[0]?.message?.content\<close> of a parsed local envelope,
  and what the local variants do with it.
\<close>

lemma local_content_read:
  assumes "json_path v [''choices'', ''0'', ''message'', ''content''] = Some c"
  shows "\<exists>choices. get_prop v ''choices'' = Inr choices
           \<and> opt_chain (opt_chain (opt_chain choices ''0'') ''message'') ''content'' = c"
proof -
  from assms obtain w1 w2 w3 where
    "json_member v ''choices'' = Some w1" "json_member w1 ''0'' = Some w2"
    "json_member w2 ''message'' = Some w3" "json_member w3 ''content'' = Some c"
    by (auto split: option.splits)
  then show ?thesis
    by (simp add: json_member_get_prop json_member_opt_chain)
qed

lemma success_response_local_text:
  assumes "JSON_parse env (resp_text response) = Inr v"
    and "json_path v [''choices'', ''0'', ''message'', ''content''] = Some (JStr txt)"
    and "txt \<noteq> []"
  shows "success_response_local env folderPath response =
         try_catch (finish env folderPath
           \<lparr>cr_success = True, cr_markdown = JStr txt, cr_images = [],
            cr_model = ''GLM-OCR (mlx-vlm)'', cr_source_file = file_name env\<rparr>)
           (\<lambda>e. parse_failed)"
proof -
  from local_content_read [OF assms(2)] obtain choices where
    "get_prop v ''choices'' = Inr choices"
    "opt_chain (opt_chain (opt_chain choices ''0'') ''message'') ''content'' = JStr txt"
    by blast
  with assms(1,3) show ?thesis
    by (simp add: success_response_local_def js_or_def io_bind_read)
qed

lemma success_response_cloud_text:
  assumes "JSON_parse env (resp_text response) = Inr v"
    and "json_path v [''code''] = Some (JNum ''0'')"
    and "json_path v [''data'', ''md_result''] = Some (JStr txt)"
    and "txt \<noteq> []"
  shows "success_response_cloud env folderPath response =
         try_catch (finish env folderPath
           \<lparr>cr_success = True, cr_markdown = JStr txt, cr_images = [],
            cr_model = ''GLM-OCR (cloud)'', cr_source_file = file_name env\<rparr>)
           (\<lambda>e. parse_failed)"
proof -
  from assms(2) have code: "get_prop v ''code'' = Inr (JNum ''0'')"
    by (auto split: option.splits intro: json_member_get_prop)
  from assms(3) obtain d where "json_member v ''data'' = Some d"
    "json_member d ''md_result'' = Some (JStr txt)"
    by (auto split: option.splits)
  then have "get_prop v ''data'' = Inr d" "opt_chain d ''md_result'' = JStr txt"
    by (simp_all add: json_member_get_prop json_member_opt_chain)
  with assms(1,4) code show ?thesis
    by (simp add: success_response_cloud_def js_or_def io_bind_read)
qed

text \<open>The cloud envelope whose code is not the number zero, and the one without text.\<close>

lemma success_response_cloud_code:
  assumes "JSON_parse env (resp_text response) = Inr v"
    and "json_path v [''code''] = Some c" and "c \<noteq> JNum ''0''"
    and "json_path v [''msg''] = Some (JStr m)"
  shows "success_response_cloud env folderPath response = fail BackendError m"
proof -
  from assms(2) have "get_prop v ''code'' = Inr c"
    by (auto split: option.splits intro: json_member_get_prop)
  moreover from assms(4) have "get_prop v ''msg'' = Inr (JStr m)"
    by (auto split: option.splits intro: json_member_get_prop)
  ultimately show ?thesis
    using assms(1,3)
    by (simp add: success_response_cloud_def try_catch_def io_bind_def lift_def fail_eq)
qed

lemma absent_md_result:
  assumes "json_member v ''data'' = None \<or> (\<exists>d. json_member v ''data'' = Some d
             \<and> (json_member d ''md_result'' = None \<or> json_member d ''md_result'' = Some (JStr [])))"
    and "get_prop v ''data'' = Inr data"
  shows "\<not> truthy (js_or (opt_chain data ''md_result'') (JStr []))"
proof -
  have "\<not> truthy (opt_chain data ''md_result'')"
  proof (cases "json_member v ''data''")
    case None
    show ?thesis
    proof (cases v)
      case (JObj kvs)
      with None assms(2) have "data = JUndefined" by simp
      then show ?thesis by simp
    next
      case (JArr xs)
      with assms(2) have "data = JUndefined" by simp
      then show ?thesis by simp
    next
      case (JStr s)
      with assms(2) have "data = JUndefined" by simp
      then show ?thesis by simp
    qed (use assms(2) in auto)
  next
    case (Some d)
    with assms(2) have "data = d"
      by (simp add: json_member_get_prop)
    moreover from Some assms(1) have
      "json_member d ''md_result'' = None \<or> json_member d ''md_result'' = Some (JStr [])"
      by simp
    ultimately show ?thesis
      by (cases d) (auto split: if_splits)
  qed
  then show ?thesis
    by (simp add: js_or_def)
qed

lemma success_response_cloud_empty:
  assumes "JSON_parse env (resp_text response) = Inr v"
    and "json_path v [''code''] = Some (JNum ''0'')"
    and "json_path v [''data'', ''md_result''] = None
         \<or> json_path v [''data'', ''md_result''] = Some (JStr [])"
  shows "success_response_cloud env folderPath response = fail EmptyResult ''No text extracted''"
proof -
  from assms(2) have code: "get_prop v ''code'' = Inr (JNum ''0'')"
    by (auto split: option.splits intro: json_member_get_prop)
  from assms(2) obtain data where data: "get_prop v ''data'' = Inr data"
    using json_member_get_prop_any [of v "''code''"] by (auto split: option.splits)
  from assms(3) have "json_member v ''data'' = None \<or> (\<exists>d. json_member v ''data'' = Some d
      \<and> (json_member d ''md_result'' = None \<or> json_member d ''md_result'' = Some (JStr [])))"
    by (auto split: option.splits)
  then have "\<not> truthy (js_or (opt_chain data ''md_result'') (JStr []))"
    using data by (rule absent_md_result)
  with assms(1) code data show ?thesis
    by (simp add: success_response_cloud_def try_catch_def io_bind_def lift_def fail_eq)
qed


section \<open>The course of \<^verbatim>\<open>convert\<close>\<close>

text \<open>
  A call ends in one of five ways: no folder; no credential (cloud); the file cannot
  be read; the request is refused; the request is answered.
\<close>

lemma convert_declined: "\<not> has_folder env \<Longrightarrow> convert b env = declined"
  by (cases b)
    (auto simp: has_folder_def convert_cloud_def convert_local_json_def
      convert_local_multipart_def split: option.splits)

lemma convert_no_key:
  assumes "has_folder env" and "\<not> has_key env"
  shows "convert Cloud env =
    (Inr (Failure ConfigError key_missing_notice),
     [Notice (start_notice Cloud env), Notice key_missing_notice])"
  using assms
  by (auto simp: has_folder_def has_key_def convert_cloud_def config_failed_eq
      io_then_def io_bind_def try_catch_def emit_def split: option.splits)

lemma convert_unread:
  assumes "has_folder env" and "has_profile b env" and "readBinary env = Inl e"
  shows "convert b env =
    (fst (transport_failed e), [Notice (start_notice b env), ReadBinary] @ snd (transport_failed e))"
proof -
  obtain m where m: "transport_failed e =
      (Inr (Failure TransportError m), [Notice (''GLM-OCR conversion failed: '' @ m)])"
    using transport_failed_eq by blast
  from assms m show ?thesis
    by (cases b)
      (auto simp: has_folder_def has_key_def convert_cloud_def convert_local_json_def
        convert_local_multipart_def io_then_def io_bind_def try_catch_def emit_def
        read_file_def split: option.splits)
qed

lemma convert_refused:
  assumes "has_folder env" and "has_profile b env" and "readBinary env = Inr fileData"
    and "requestUrl env (post_request b env fileData) = Inl e"
  shows "convert b env =
    (fst (transport_failed e),
     [Notice (start_notice b env), ReadBinary, Http (post_request b env fileData) (Inl e)]
       @ snd (transport_failed e))"
proof -
  obtain m where m: "transport_failed e =
      (Inr (Failure TransportError m), [Notice (''GLM-OCR conversion failed: '' @ m)])"
    using transport_failed_eq by blast
  show ?thesis
  proof (cases b)
    case Cloud
    with assms m show ?thesis
      by (auto simp: has_folder_def has_key_def convert_cloud_def api_key_def
          io_then_def io_bind_def try_catch_def emit_def read_file_def send_def
          split: option.splits)
  next
    case LocalJson
    with assms m show ?thesis
      by (auto simp: has_folder_def convert_local_json_def
          io_then_def io_bind_def try_catch_def emit_def read_file_def send_def
          split: option.splits)
  next
    case LocalMultipart
    with assms m show ?thesis
      by (auto simp: has_folder_def convert_local_multipart_def multipart_body_layout
          io_then_def io_bind_def try_catch_def emit_def read_file_def send_def lift_def
          split: option.splits)
  qed
qed

lemma convert_answered:
  assumes "prepareConversion env = Some folderPath" and "folderPath \<noteq> []"
    and "has_profile b env" and "readBinary env = Inr fileData"
    and "requestUrl env (post_request b env fileData) = Inr response"
  shows "convert b env =
    (fst (handle_response b env folderPath response),
     [Notice (start_notice b env), ReadBinary, Http (post_request b env fileData) (Inr response)]
       @ snd (handle_response b env folderPath response))"
proof -
  obtain out where out: "fst (handle_response b env folderPath response) = Inr out"
    using handle_response_returns by blast
  show ?thesis
  proof (cases b)
    case Cloud
    with assms out show ?thesis
      by (auto simp: has_key_def convert_cloud_def api_key_def
          io_then_def io_bind_def try_catch_def emit_def read_file_def send_def
          split: option.splits)
  next
    case LocalJson
    with assms out show ?thesis
      by (auto simp: convert_local_json_def
          io_then_def io_bind_def try_catch_def emit_def read_file_def send_def
          split: option.splits)
  next
    case LocalMultipart
    with assms out show ?thesis
      by (auto simp: convert_local_multipart_def multipart_body_layout
          io_then_def io_bind_def try_catch_def emit_def read_file_def send_def lift_def
          split: option.splits)
  qed
qed


subsection \<open>The requests of a call\<close>

lemma transport_failed_requests: "requests (snd (transport_failed e)) = []"
  using transport_failed_eq [of e] by auto

lemma method_and_url:
  "req_method (post_request b env fileData) = ''POST''
   \<and> req_url (post_request b env fileData) = post_url b env"
  by (cases b) (simp_all add: cloud_request_def chat_request_def multipart_request_def)

lemma convert_requests:
  "requests (snd (convert b env)) =
     (if has_document env \<and> has_profile b env then [post_request b env (file_bytes env)] else [])"
proof (cases "has_folder env")
  case False
  then show ?thesis
    by (simp add: convert_declined declined_eq has_document_def)
next
  case folder: True
  show ?thesis
  proof (cases "has_profile b env")
    case False
    then have "b = Cloud" and "\<not> has_key env"
      by (cases b; simp)+
    with folder have "snd (convert b env) = [Notice (start_notice Cloud env), Notice key_missing_notice]"
      using convert_no_key [of env] by simp
    with False show ?thesis
      by simp
  next
    case profile: True
    show ?thesis
    proof (cases "readBinary env")
      case (Inl e)
      with folder profile show ?thesis
        by (simp add: convert_unread has_document_def transport_failed_requests)
    next
      case (Inr fileData)
      then have doc: "has_document env" and bytes: "file_bytes env = fileData"
        using folder by (simp_all add: has_document_def file_bytes_def)
      from folder obtain folderPath where fp: "prepareConversion env = Some folderPath"
        "folderPath \<noteq> []"
        by (auto simp: has_folder_def split: option.splits)
      show ?thesis
      proof (cases "requestUrl env (post_request b env fileData)")
        case (Inl e)
        with folder profile Inr doc bytes show ?thesis
          by (simp add: convert_refused transport_failed_requests)
      next
        case response: (Inr response)
        with fp profile Inr doc bytes show ?thesis
          by (simp add: convert_answered handle_response_requests)
      qed
    qed
  qed
qed

subsection \<open>A call whose request is answered\<close>

text \<open>
  The call has a document and a profile, and the server answers its request: the
  outcome and the trace are those of the response handling, after the opening notice,
  the read and the request.
\<close>

lemma convert_document_answered:
  assumes "has_document env" and "has_profile b env"
    and "requestUrl env (post_request b env (file_bytes env)) = Inr response"
  shows "convert b env =
    (fst (handle_response b env (folder env) response),
     [Notice (start_notice b env), ReadBinary,
      Http (post_request b env (file_bytes env)) (Inr response)]
       @ snd (handle_response b env (folder env) response))"
proof -
  from assms(1) obtain folderPath fileData where
    fp: "prepareConversion env = Some folderPath" "folderPath \<noteq> []"
    and read: "readBinary env = Inr fileData"
    by (auto simp: has_document_def has_folder_def split: option.splits sum.splits)
  then have same: "folder env = folderPath" "file_bytes env = fileData"
    by (simp_all add: folder_def file_bytes_def)
  from assms(3) have "requestUrl env (post_request b env fileData) = Inr response"
    by (simp add: same)
  from convert_answered [OF fp assms(2) read this] show ?thesis
    by (simp add: same)
qed

lemma answered_failure:
  assumes "has_document env" and "has_profile b env"
    and "requestUrl env (post_request b env (file_bytes env)) = Inr response"
    and "handle_response b env (folder env) response = fail k m"
  shows "fst (convert b env) = Inr (Failure k m)
         \<and> last (snd (convert b env)) = Notice (''GLM-OCR conversion failed: '' @ m)
         \<and> handed_on (snd (convert b env)) = []"
  by (simp add: convert_document_answered [OF assms(1-3)] assms(4) fail_eq)

subsection \<open>A call that received a response\<close>

lemma transport_failed_responses: "responses (snd (transport_failed e)) = []"
  using transport_failed_eq [of e] by auto

lemma handle_response_responses: "responses (snd (handle_response b env folderPath response)) = []"
  by (simp add: no_requests_no_responses handle_response_requests)

lemma convert_received:
  assumes "received (convert b env) response"
  shows "\<exists>folderPath fileData.
          prepareConversion env = Some folderPath \<and> folderPath \<noteq> [] \<and> has_profile b env
          \<and> readBinary env = Inr fileData
          \<and> requestUrl env (post_request b env fileData) = Inr response"
proof (cases "has_folder env")
  case False
  with assms show ?thesis
    by (simp add: received_def convert_declined declined_eq)
next
  case folder: True
  then obtain folderPath where fp: "prepareConversion env = Some folderPath" "folderPath \<noteq> []"
    by (auto simp: has_folder_def split: option.splits)
  show ?thesis
  proof (cases "has_profile b env")
    case False
    then have "b = Cloud" and "\<not> has_key env"
      by (cases b; simp)+
    with folder have "snd (convert b env) = [Notice (start_notice Cloud env), Notice key_missing_notice]"
      using convert_no_key [of env] by simp
    with assms show ?thesis
      by (simp add: received_def)
  next
    case profile: True
    show ?thesis
    proof (cases "readBinary env")
      case (Inl e)
      with folder profile assms show ?thesis
        by (simp add: received_def convert_unread transport_failed_responses)
    next
      case (Inr fileData)
      show ?thesis
      proof (cases "requestUrl env (post_request b env fileData)")
        case (Inl e)
        with folder profile Inr assms show ?thesis
          by (simp add: received_def convert_refused transport_failed_responses)
      next
        case answer: (Inr r)
        with fp profile Inr assms have "r = response"
          by (simp add: received_def convert_answered handle_response_responses)
        with fp profile Inr answer show ?thesis
          by simp
      qed
    qed
  qed
qed

text \<open>
  The outcome and the trace of such a call are those of the response handling, after
  the opening notice, the read and the request.
\<close>

lemma convert_received_handle:
  assumes "received (convert b env) response"
  shows "\<exists>rq. convert b env =
           (fst (handle_response b env (folder env) response),
            [Notice (start_notice b env), ReadBinary, Http rq (Inr response)]
              @ snd (handle_response b env (folder env) response))"
proof -
  from convert_received [OF assms] obtain folderPath fileData where
    run: "prepareConversion env = Some folderPath" "folderPath \<noteq> []" "has_profile b env"
      "readBinary env = Inr fileData"
      "requestUrl env (post_request b env fileData) = Inr response"
    by blast
  then have "folder env = folderPath"
    by (simp add: folder_def)
  with convert_answered [OF run] show ?thesis
    by auto
qed


section \<open>The classification of a response\<close>

subsection \<open>By backend\<close>

lemma envelope_message_local: "envelope_message LocalMultipart v = envelope_message LocalJson v"
  by (simp add: envelope_message_def)

lemma http_failure_message_local:
  "http_failure_message LocalMultipart env response = http_failure_message LocalJson env response"
  by (simp add: http_failure_message_def envelope_message_local split: sum.splits)

lemma error_response_cloud_classified:
  "error_response_cloud env response = fail HttpError (http_failure_message Cloud env response)"
proof (cases "JSON_parse env (resp_text response)")
  case (Inl e)
  then show ?thesis
    by (simp add: error_response_cloud_unparsed http_failure_message_def)
next
  case (Inr v)
  show ?thesis
  proof (cases "v = JNull \<or> v = JUndefined")
    case True
    with Inr show ?thesis
      by (simp add: error_response_cloud_null http_failure_message_def)
  next
    case False
    then have "v \<noteq> JNull" and "v \<noteq> JUndefined"
      by simp_all
    from error_response_cloud_parsed [OF Inr this] Inr False show ?thesis
      by (simp add: http_failure_message_def split: option.splits sum.splits)
  qed
qed

lemma error_response_local_classified:
  "error_response_local env response = fail HttpError (http_failure_message LocalJson env response)"
proof (cases "JSON_parse env (resp_text response)")
  case (Inl e)
  then show ?thesis
    by (simp add: error_response_local_unparsed http_failure_message_def)
next
  case (Inr v)
  show ?thesis
  proof (cases "v = JNull \<or> v = JUndefined")
    case True
    with Inr show ?thesis
      by (simp add: error_response_local_null http_failure_message_def)
  next
    case False
    then have "v \<noteq> JNull" and "v \<noteq> JUndefined"
      by simp_all
    from error_response_local_parsed [OF Inr this] Inr False show ?thesis
      by (simp add: http_failure_message_def split: option.splits sum.splits)
  qed
qed

lemma handle_error:
  "resp_status response \<noteq> 200 \<Longrightarrow>
   handle_response b env folderPath response = fail HttpError (http_failure_message b env response)"
  by (cases b)
    (simp_all add: handle_response_cloud_def handle_response_local_def
      error_response_cloud_classified error_response_local_classified http_failure_message_local)

lemma handle_unparsed:
  "resp_status response = 200 \<Longrightarrow> JSON_parse env (resp_text response) = Inl e \<Longrightarrow>
   handle_response b env folderPath response = parse_failed"
  by (cases b)
    (simp_all add: handle_response_cloud_def handle_response_local_def
      success_response_cloud_unparsed success_response_local_unparsed)

lemma handle_text:
  assumes "resp_status response = 200" and "JSON_parse env (resp_text response) = Inr v"
    and "indicates_success b v" and "extracted_field b v = Some (JStr txt)" and "txt \<noteq> []"
  shows "handle_response b env folderPath response =
         try_catch (finish env folderPath (success_result b env (JStr txt))) (\<lambda>e. parse_failed)"
  using assms
  by (cases b)
    (simp_all add: handle_response_cloud_def handle_response_local_def extracted_field_def
      success_result_def success_response_cloud_text success_response_local_text)

lemma answered_received:
  assumes "prepareConversion env = Some folderPath" and "folderPath \<noteq> []"
    and "has_profile b env" and "readBinary env = Inr fileData"
    and "requestUrl env (post_request b env fileData) = Inr response"
  shows "received (convert b env) response"
  by (simp add: received_def convert_answered [OF assms])

subsection \<open>The claims\<close>

text \<open>
  Claim C1, as the code has it. The call has a document (the folder is prepared and the
  file is read) and a profile, and the server answers its request with status 200 and a
  body that parses to a well-formed success envelope (the success indicator, where the
  backend has one, says success) with a non-empty text field \<open>txt\<close>. Then \<^verbatim>\<open>convert\<close>
  produces the conversion result with \<^verbatim>\<open>success: true\<close> and \<^verbatim>\<open>markdown\<close> equal to \<open>txt\<close>,
  unchanged, and hands exactly that result on; and when the vault steps that follow
  inside \<^verbatim>\<open>convert\<close> complete, it returns \<^verbatim>\<open>true\<close> with this result. In every case it
  returns rather than throws.
\<close>

theorem success_verbatim:
  assumes "has_document env" and "has_profile b env"
    and "requestUrl env (post_request b env (file_bytes env)) = Inr response"
    and "resp_status response = 200"
    and "JSON_parse env (resp_text response) = Inr v"
    and "indicates_success b v"
    and "extracted_field b v = Some (JStr txt)"
    and "txt \<noteq> []"
  shows "handed_on (snd (convert b env)) =
           [\<lparr>cr_success = True, cr_markdown = JStr txt, cr_images = [],
             cr_model = model_label b, cr_source_file = file_name env\<rparr>]
         \<and> (if vault_steps_complete env (folder env) (success_result b env (JStr txt))
            then fst (convert b env) =
                   Inr (Success \<lparr>cr_success = True, cr_markdown = JStr txt, cr_images = [],
                                 cr_model = model_label b, cr_source_file = file_name env\<rparr>)
            else returns (convert b env))"
proof -
  let ?cr = "success_result b env (JStr txt)"
  let ?h = "try_catch (finish env (folder env) ?cr) (\<lambda>e. parse_failed)"
  have run: "convert b env =
      (fst ?h,
       [Notice (start_notice b env), ReadBinary,
        Http (post_request b env (file_bytes env)) (Inr response)] @ snd ?h)"
    using convert_document_answered [OF assms(1-3)]
    by (simp only: handle_text [OF assms(4-8)])
  have handed: "handed_on (snd (convert b env)) = [?cr]"
    by (simp add: run guarded_finish_handed_on)
  have ok: "fst (convert b env) = Inr (Success ?cr)"
    if "vault_steps_complete env (folder env) ?cr"
    using that by (simp add: run guarded_finish_complete)
  have "returns (convert b env)"
    using guarded_finish_returns [of env "folder env" ?cr] by (auto simp: run returns_def)
  with handed ok show ?thesis
    by (simp add: success_result_def)
qed

text \<open>
  The scenario of the specification, the document \<^verbatim>\<open>scan.png\<close> and the local JSON backend
  answering status 200 with \<^verbatim>\<open>{"choices":[{"message":{"content":"Hello World"}}]}\<close>; the
  cloud backend answering \<^verbatim>\<open>{"code":0,"msg":"ok","data":{"md_result":"# Title"}}\<close>; and the
  multipart variant sending the document \<^verbatim>\<open>paper.pdf\<close>.
\<close>

theorem success_verbatim_witness:
  "fst (convert LocalJson env_scan) =
     Inr (Success \<lparr>cr_success = True, cr_markdown = JStr ''Hello World'', cr_images = [],
                   cr_model = ''GLM-OCR (mlx-vlm)'', cr_source_file = ''scan.png''\<rparr>)
   \<and> fst (convert Cloud (env_with (answer 200 cloud_body))) =
       Inr (Success \<lparr>cr_success = True, cr_markdown = JStr ''# Title'', cr_images = [],
                     cr_model = ''GLM-OCR (cloud)'', cr_source_file = ''scan.png''\<rparr>)
   \<and> fst (convert LocalMultipart env_pdf) =
       Inr (Success \<lparr>cr_success = True, cr_markdown = JStr ''Hello World'', cr_images = [],
                     cr_model = ''GLM-OCR (mlx-vlm)'', cr_source_file = ''paper.pdf''\<rparr>)"
proof -
  let ?hello = "\<lparr>resp_status = 200, resp_text = hello_body\<rparr>"
  let ?title = "\<lparr>resp_status = 200, resp_text = cloud_body\<rparr>"
  let ?cloud = "env_with (answer 200 cloud_body)"
  have hello: "extracted_field LocalJson hello_value = Some (JStr ''Hello World'')"
    "extracted_field LocalMultipart hello_value = Some (JStr ''Hello World'')"
    by (simp_all add: extracted_field_def hello_value_def)
  have title: "extracted_field Cloud cloud_value = Some (JStr ''# Title'')"
    "indicates_success Cloud cloud_value"
    by (simp_all add: extracted_field_def cloud_value_def)
  have scan: "has_document env_scan"
    "requestUrl env_scan (post_request LocalJson env_scan (file_bytes env_scan)) = Inr ?hello"
    "JSON_parse env_scan (resp_text ?hello) = Inr hello_value"
    "vault_steps_complete env_scan (folder env_scan)
       (success_result LocalJson env_scan (JStr ''Hello World''))"
    by (simp_all add: has_document_def has_folder_def vault_steps_complete_def env_scan_def
        answer_def example_parse_def)
  have cloud: "has_document ?cloud" "has_profile Cloud ?cloud"
    "requestUrl ?cloud (post_request Cloud ?cloud (file_bytes ?cloud)) = Inr ?title"
    "JSON_parse ?cloud (resp_text ?title) = Inr cloud_value"
    "vault_steps_complete ?cloud (folder ?cloud) (success_result Cloud ?cloud (JStr ''# Title''))"
    by (simp_all add: has_document_def has_folder_def has_key_def vault_steps_complete_def
        env_with_def env_scan_def answer_def example_parse_def hello_body_def quota_body_def
        cloud_body_def quoted_def)
  have pdf: "has_document env_pdf"
    "requestUrl env_pdf (post_request LocalMultipart env_pdf (file_bytes env_pdf)) = Inr ?hello"
    "JSON_parse env_pdf (resp_text ?hello) = Inr hello_value"
    "vault_steps_complete env_pdf (folder env_pdf)
       (success_result LocalMultipart env_pdf (JStr ''Hello World''))"
    by (simp_all add: has_document_def has_folder_def vault_steps_complete_def env_pdf_def
        env_scan_def answer_def example_parse_def)
  have "fst (convert LocalJson env_scan) =
      Inr (Success \<lparr>cr_success = True, cr_markdown = JStr ''Hello World'', cr_images = [],
                    cr_model = ''GLM-OCR (mlx-vlm)'', cr_source_file = ''scan.png''\<rparr>)"
    using success_verbatim [OF scan(1) _ scan(2) _ scan(3) _ hello(1)] scan(4)
    by (simp add: env_scan_def)
  moreover have "fst (convert Cloud ?cloud) =
      Inr (Success \<lparr>cr_success = True, cr_markdown = JStr ''# Title'', cr_images = [],
                    cr_model = ''GLM-OCR (cloud)'', cr_source_file = ''scan.png''\<rparr>)"
    using success_verbatim [OF cloud(1,2,3) _ cloud(4) title(2,1)] cloud(5)
    by (simp add: env_with_def env_scan_def)
  moreover have "fst (convert LocalMultipart env_pdf) =
      Inr (Success \<lparr>cr_success = True, cr_markdown = JStr ''Hello World'', cr_images = [],
                    cr_model = ''GLM-OCR (mlx-vlm)'', cr_source_file = ''paper.pdf''\<rparr>)"
    using success_verbatim [OF pdf(1) _ pdf(2) _ pdf(3) _ hello(2)] pdf(4)
    by (simp add: env_pdf_def env_scan_def)
  ultimately show ?thesis
    by (simp only: simp_thms)
qed

text \<open>
  Claim C1 as it is written promises \<open>Success\<close> for every response with a well-formed
  success envelope. The steps that write the note and move the original run inside the
  same \<^verbatim>\<open>try\<close> block, after the result is made. Here the local JSON backend answers the
  scenario above, the settings ask to move the original, and the vault refuses the
  move: \<^verbatim>\<open>convert\<close> returns \<^verbatim>\<open>false\<close>.
\<close>

theorem success_needs_vault_steps:
  "requestUrl env_taken (post_request LocalJson env_taken (file_bytes env_taken)) =
     Inr \<lparr>resp_status = 200, resp_text = hello_body\<rparr>
   \<and> JSON_parse env_taken hello_body = Inr hello_value
   \<and> extracted_field LocalJson hello_value = Some (JStr ''Hello World'')
   \<and> fst (convert LocalJson env_taken) =
       Inr (Failure MalformedResponse ''Error parsing GLM-OCR response. Check console for details.'')"
proof -
  let ?r = "\<lparr>resp_status = 200, resp_text = hello_body\<rparr>"
  let ?cr = "success_result LocalJson env_taken (JStr ''Hello World'')"
  have field: "extracted_field LocalJson hello_value = Some (JStr ''Hello World'')"
    by (simp add: extracted_field_def hello_value_def)
  have given: "has_document env_taken"
    "requestUrl env_taken (post_request LocalJson env_taken (file_bytes env_taken)) = Inr ?r"
    "JSON_parse env_taken (resp_text ?r) = Inr hello_value"
    by (simp_all add: has_document_def has_folder_def env_taken_def env_scan_def answer_def
        example_parse_def)
  have "handle_response LocalJson env_taken (folder env_taken) ?r =
      try_catch (finish env_taken (folder env_taken) ?cr) (\<lambda>e. parse_failed)"
    by (rule handle_text [OF _ given(3) _ field]) simp_all
  with convert_document_answered [OF given(1) _ given(2)]
  have run: "fst (convert LocalJson env_taken) =
      fst (try_catch (finish env_taken (folder env_taken) ?cr) (\<lambda>e. parse_failed))"
    by simp
  have "fst (finish env_taken (folder env_taken) ?cr) =
      Inl (Thrown ''Destination file already exists!'')"
    by (simp add: finish_def io_then_def io_bind_def io_when_def perform_def emit_def
        io_return_def env_taken_def env_scan_def)
  then have "fst (convert LocalJson env_taken) = Inr (Failure MalformedResponse parse_error_notice)"
    unfolding run by (simp add: try_catch_def parse_failed_eq)
  with given(2,3) field show ?thesis
    by (simp add: parse_error_notice_def)
qed


text \<open>
  The trace of a call that received a response ends with what the response handling
  leaves; when that is a failure exit, the call hands nothing on and its last event is
  the notice of the failure.
\<close>

lemma received_failure:
  assumes "received (convert b env) response"
    and "handle_response b env (folder env) response = (Inr (Failure k m), [Notice n])"
  shows "fst (convert b env) = Inr (Failure k m) \<and> last (snd (convert b env)) = Notice n
         \<and> handed_on (snd (convert b env)) = []"
proof -
  from convert_received_handle [OF assms(1)] obtain rq where
    "convert b env =
       (fst (handle_response b env (folder env) response),
        [Notice (start_notice b env), ReadBinary, Http rq (Inr response)]
          @ snd (handle_response b env (folder env) response))"
    by blast
  then show ?thesis
    by (simp add: assms(2))
qed


lemma show_int_503: "show_int 503 = ''503''"
  by code_simp





text \<open>
  Claim C5. Whenever \<^verbatim>\<open>convert\<close> receives a response with status 200 whose body is not
  valid JSON, it returns \<^verbatim>\<open>false\<close> through the exit for malformed responses, with the
  notice that the response could not be parsed; it hands nothing on and does not throw.
\<close>

theorem malformed_response:
  assumes "received (convert b env) response"
    and "resp_status response = 200"
    and "JSON_parse env (resp_text response) = Inl e"
  shows "fst (convert b env) =
           Inr (Failure MalformedResponse ''Error parsing GLM-OCR response. Check console for details.'')
         \<and> last (snd (convert b env)) =
             Notice ''Error parsing GLM-OCR response. Check console for details.''
         \<and> handed_on (snd (convert b env)) = []"
proof -
  from handle_unparsed [OF assms(2,3)]
  have "handle_response b env (folder env) response = parse_failed" .
  from received_failure [OF assms(1) this [unfolded parse_failed_eq]] show ?thesis
    by (simp add: parse_error_notice_def)
qed

theorem malformed_response_witness:
  "fst (convert Cloud (env_with (answer 200 ''<html>Bad Gateway</html>''))) =
     Inr (Failure MalformedResponse ''Error parsing GLM-OCR response. Check console for details.'')"
proof -
  let ?env = "env_with (answer 200 ''<html>Bad Gateway</html>'')"
  let ?r = "\<lparr>resp_status = 200, resp_text = ''<html>Bad Gateway</html>''\<rparr>"
  have rec: "received (convert Cloud ?env) ?r"
    by (rule answered_received [where folderPath = "''notes/scan/''" and fileData = "[137, 80, 78, 71]"])
      (simp_all add: env_with_def env_scan_def answer_def has_key_def)
  have parse: "JSON_parse ?env (resp_text ?r) = Inl (Thrown ''Unexpected token'')"
    by (simp add: env_with_def env_scan_def example_parse_def hello_body_def quota_body_def
        cloud_body_def no_text_body_def quoted_def error_body_def detail_body_def odd_body_def)
  from malformed_response [OF rec _ parse] show ?thesis
    by simp
qed

text \<open>
  Claim C4. Whenever \<^verbatim>\<open>convert\<close> of the cloud variant receives a response with status 200
  whose body parses to an envelope with a \<^verbatim>\<open>code\<close> other than the number zero and a
  text \<^verbatim>\<open>msg\<close>, it returns \<^verbatim>\<open>false\<close> through the exit for backend errors, and the failure
  message is \<^verbatim>\<open>msg\<close>.
\<close>

theorem backend_error:
  assumes "received (convert Cloud env) response"
    and "resp_status response = 200"
    and "JSON_parse env (resp_text response) = Inr v"
    and "json_path v [''code''] = Some c"
    and "c \<noteq> JNum ''0''"
    and "json_path v [''msg''] = Some (JStr m)"
  shows "fst (convert Cloud env) = Inr (Failure BackendError m)
         \<and> last (snd (convert Cloud env)) = Notice (''GLM-OCR conversion failed: '' @ m)
         \<and> handed_on (snd (convert Cloud env)) = []"
proof -
  from assms(2) success_response_cloud_code [OF assms(3-6)]
  have "handle_response Cloud env (folder env) response = fail BackendError m"
    by (simp add: handle_response_cloud_def)
  from received_failure [OF assms(1) this [unfolded fail_eq]] show ?thesis .
qed

text \<open>The scenario of the specification: \<^verbatim>\<open>{"code":1,"msg":"quota exceeded"}\<close>.\<close>

theorem backend_error_witness:
  "fst (convert Cloud (env_with (answer 200 quota_body))) =
     Inr (Failure BackendError ''quota exceeded'')"
proof -
  let ?env = "env_with (answer 200 quota_body)"
  let ?r = "\<lparr>resp_status = 200, resp_text = quota_body\<rparr>"
  have rec: "received (convert Cloud ?env) ?r"
    by (rule answered_received [where folderPath = "''notes/scan/''" and fileData = "[137, 80, 78, 71]"])
      (simp_all add: env_with_def env_scan_def answer_def has_key_def)
  have parse: "JSON_parse ?env (resp_text ?r) = Inr quota_value"
    by (simp add: env_with_def env_scan_def example_parse_def hello_body_def quota_body_def
        quoted_def)
  have code: "json_path quota_value [''code''] = Some (JNum ''1'')"
    and msg: "json_path quota_value [''msg''] = Some (JStr ''quota exceeded'')"
    by (simp_all add: quota_value_def)
  from backend_error [OF rec _ parse code _ msg] show ?thesis
    by simp
qed


subsection \<open>An envelope without text\<close>

text \<open>
  The cloud variant ends in the exit for an empty result when the envelope says success
  and its text field is absent or the empty string.
\<close>

lemma cloud_empty_result:
  assumes "received (convert Cloud env) response"
    and "resp_status response = 200"
    and "JSON_parse env (resp_text response) = Inr v"
    and "indicates_success Cloud v"
    and "extracted_field Cloud v = None \<or> extracted_field Cloud v = Some (JStr [])"
  shows "fst (convert Cloud env) = Inr (Failure EmptyResult ''No text extracted'')
         \<and> last (snd (convert Cloud env)) = Notice ''GLM-OCR conversion failed: No text extracted''
         \<and> handed_on (snd (convert Cloud env)) = []"
proof -
  from assms(4,5) have "json_path v [''code''] = Some (JNum ''0'')"
    and "json_path v [''data'', ''md_result''] = None
         \<or> json_path v [''data'', ''md_result''] = Some (JStr [])"
    by (simp_all add: extracted_field_def)
  with assms(2) success_response_cloud_empty [OF assms(3)]
  have "handle_response Cloud env (folder env) response = fail EmptyResult ''No text extracted''"
    by (simp add: handle_response_cloud_def)
  from received_failure [OF assms(1) this [unfolded fail_eq]] show ?thesis
    by simp
qed

text \<open>
  The local variants put the text \<^verbatim>\<open>No text extracted\<close> in the place of a text field
  that is absent or empty, and go on as after a conversion.
\<close>

lemma success_response_local_placeholder:
  assumes "JSON_parse env (resp_text response) = Inr v"
    and "get_prop v ''choices'' = Inr choices"
    and "\<not> truthy (opt_chain (opt_chain (opt_chain choices ''0'') ''message'') ''content'')"
  shows "success_response_local env folderPath response =
         try_catch (finish env folderPath
           \<lparr>cr_success = True, cr_markdown = JStr ''No text extracted'', cr_images = [],
            cr_model = ''GLM-OCR (mlx-vlm)'', cr_source_file = file_name env\<rparr>)
           (\<lambda>e. parse_failed)"
  using assms by (simp add: success_response_local_def js_or_def io_bind_read)

text \<open>
  Claim C2 says that every variant ends in the exit for an empty result when the text
  field of the success envelope of a response with status 200 is absent or the empty
  string. The cloud variant does (lemma \<open>cloud_empty_result\<close>). The local JSON variant
  does not: on the body \<^verbatim>\<open>{"choices":[{"message":{"content":""}}]}\<close>, whose text field
  is the empty string, it hands on a conversion result whose markdown is
  \<^verbatim>\<open>No text extracted\<close> and returns \<^verbatim>\<open>true\<close>.
\<close>

theorem empty_text_local_json:
  "extracted_field LocalJson no_text_value = Some (JStr [])
   \<and> fst (convert LocalJson (env_with (answer 200 no_text_body))) =
       Inr (Success \<lparr>cr_success = True, cr_markdown = JStr ''No text extracted'', cr_images = [],
                     cr_model = ''GLM-OCR (mlx-vlm)'', cr_source_file = ''scan.png''\<rparr>)
   \<and> handed_on (snd (convert LocalJson (env_with (answer 200 no_text_body)))) =
       [\<lparr>cr_success = True, cr_markdown = JStr ''No text extracted'', cr_images = [],
         cr_model = ''GLM-OCR (mlx-vlm)'', cr_source_file = ''scan.png''\<rparr>]
   \<and> last (snd (convert LocalJson (env_with (answer 200 no_text_body)))) =
       Notice ''Conversion with GLM-OCR completed''"
proof -
  let ?env = "env_with (answer 200 no_text_body)"
  let ?r = "\<lparr>resp_status = 200, resp_text = no_text_body\<rparr>"
  let ?cr = "\<lparr>cr_success = True, cr_markdown = JStr ''No text extracted'', cr_images = [],
             cr_model = ''GLM-OCR (mlx-vlm)'', cr_source_file = file_name ?env\<rparr>"
  have parse: "JSON_parse ?env (resp_text ?r) = Inr no_text_value"
    by (simp add: env_with_def env_scan_def example_parse_def hello_body_def quota_body_def
        cloud_body_def no_text_body_def quoted_def)
  have "success_response_local ?env ''notes/scan/'' ?r =
      try_catch (finish ?env ''notes/scan/'' ?cr) (\<lambda>e. parse_failed)"
    by (rule success_response_local_placeholder
        [OF parse, where choices = "JArr [JObj [(''message'', JObj [(''content'', JStr [])])]]"])
      (simp_all add: no_text_value_def)
  then have handle: "handle_response LocalJson ?env ''notes/scan/'' ?r =
      try_catch (finish ?env ''notes/scan/'' ?cr) (\<lambda>e. parse_failed)"
    by (simp add: handle_response_local_def)
  have run: "convert LocalJson ?env =
      (fst (handle_response LocalJson ?env ''notes/scan/'' ?r),
       [Notice (start_notice LocalJson ?env), ReadBinary,
        Http (post_request LocalJson ?env [137, 80, 78, 71]) (Inr ?r)]
         @ snd (handle_response LocalJson ?env ''notes/scan/'' ?r))"
    by (rule convert_answered) (simp_all add: env_with_def env_scan_def answer_def)
  have vault: "vault_steps_complete ?env ''notes/scan/'' ?cr"
    by (simp add: vault_steps_complete_def env_with_def env_scan_def)
  have name: "file_name ?env = ''scan.png''"
    by (simp add: env_with_def env_scan_def)
  have steps: "snd (finish ?env ''notes/scan/'' ?cr) =
      [ProcessResult ?cr ''notes/scan/'', Notice ''Conversion with GLM-OCR completed'']"
    by (simp add: finish_def io_then_def io_bind_def io_when_def perform_def emit_def
        io_return_def env_with_def env_scan_def)
  have "fst (convert LocalJson ?env) = Inr (Success ?cr)"
    unfolding run handle using guarded_finish_complete [OF vault] by simp
  moreover have "handed_on (snd (convert LocalJson ?env)) = [?cr]"
    unfolding run handle by (simp add: guarded_finish_handed_on)
  moreover have "last (snd (convert LocalJson ?env)) = Notice ''Conversion with GLM-OCR completed''"
    unfolding run handle using finish_complete [OF vault]
    by (simp add: try_catch_def steps)
  moreover have "extracted_field LocalJson no_text_value = Some (JStr [])"
    by (simp add: extracted_field_def no_text_value_def)
  ultimately show ?thesis
    by (simp only: name simp_thms)
qed


subsection \<open>\<^verbatim>\<open>convert\<close> never throws\<close>

text \<open>
  Whatever the file, the server and the vault do, \<^verbatim>\<open>convert\<close> returns: every exception
  raised inside its \<^verbatim>\<open>try\<close> blocks ends in a handler that returns \<^verbatim>\<open>false\<close>.
\<close>

lemma convert_returns: "returns (convert b env)"
proof (cases "has_folder env")
  case False
  then show ?thesis
    by (simp add: convert_declined declined_eq returns_def)
next
  case folder: True
  then obtain folderPath where fp: "prepareConversion env = Some folderPath" "folderPath \<noteq> []"
    by (auto simp: has_folder_def split: option.splits)
  show ?thesis
  proof (cases "has_profile b env")
    case False
    then have "b = Cloud" and "\<not> has_key env"
      by (cases b; simp)+
    with folder show ?thesis
      using convert_no_key [of env] by (simp add: returns_def)
  next
    case profile: True
    show ?thesis
    proof (cases "readBinary env")
      case (Inl e)
      from transport_failed_eq [of e] convert_unread [OF folder profile Inl] show ?thesis
        by (auto simp: returns_def)
    next
      case (Inr fileData)
      show ?thesis
      proof (cases "requestUrl env (post_request b env fileData)")
        case (Inl e)
        from transport_failed_eq [of e] convert_refused [OF folder profile Inr Inl] show ?thesis
          by (auto simp: returns_def)
      next
        case answer: (Inr response)
        from handle_response_returns [of b env folderPath response]
          convert_answered [OF fp profile Inr answer] show ?thesis
          by (auto simp: returns_def)
      qed
    qed
  qed
qed

subsection \<open>Two more scenarios\<close>

text \<open>
  The cloud backend answers \<^verbatim>\<open>{"code":0,"msg":"ok","data":{"md_result":"# Title"}}\<close>: the
  text is handed on as it is.
\<close>

lemma cloud_success_example:
  "fst (convert Cloud (env_with (answer 200 cloud_body))) =
     Inr (Success \<lparr>cr_success = True, cr_markdown = JStr ''# Title'', cr_images = [],
                   cr_model = ''GLM-OCR (cloud)'', cr_source_file = ''scan.png''\<rparr>)"
proof -
  let ?env = "env_with (answer 200 cloud_body)"
  let ?r = "\<lparr>resp_status = 200, resp_text = cloud_body\<rparr>"
  let ?cr = "success_result Cloud ?env (JStr ''# Title'')"
  have parse: "JSON_parse ?env (resp_text ?r) = Inr cloud_value"
    by (simp add: env_with_def env_scan_def example_parse_def hello_body_def quota_body_def
        cloud_body_def quoted_def)
  have "handle_response Cloud ?env ''notes/scan/'' ?r =
      try_catch (finish ?env ''notes/scan/'' ?cr) (\<lambda>e. parse_failed)"
    by (rule handle_text [OF _ parse])
      (simp_all add: extracted_field_def cloud_value_def)
  moreover have "convert Cloud ?env =
      (fst (handle_response Cloud ?env ''notes/scan/'' ?r),
       [Notice (start_notice Cloud ?env), ReadBinary,
        Http (post_request Cloud ?env [137, 80, 78, 71]) (Inr ?r)]
         @ snd (handle_response Cloud ?env ''notes/scan/'' ?r))"
    by (rule convert_answered) (simp_all add: env_with_def env_scan_def answer_def has_key_def)
  moreover have "vault_steps_complete ?env ''notes/scan/'' ?cr"
    by (simp add: vault_steps_complete_def env_with_def env_scan_def)
  ultimately have "fst (convert Cloud ?env) = Inr (Success ?cr)"
    by (simp add: guarded_finish_complete)
  then show ?thesis
    by (simp add: success_result_def env_with_def env_scan_def)
qed

text \<open>
  A local server answers status 503 with
  \<^verbatim>\<open>{"error":{"message":"model not loaded","type":"server_error"}}\<close>: the message of the
  envelope is the failure message.
\<close>

lemma error_envelope_example:
  "convert LocalJson (env_with (answer 503 error_body)) =
     (Inr (Failure HttpError ''model not loaded''),
      [Notice ''Converting file with GLM-OCR...'', ReadBinary,
       Http (post_request LocalJson (env_with (answer 503 error_body)) [137, 80, 78, 71])
         (Inr \<lparr>resp_status = 503, resp_text = error_body\<rparr>),
       Notice ''GLM-OCR conversion failed: model not loaded''])"
proof -
  let ?env = "env_with (answer 503 error_body)"
  let ?r = "\<lparr>resp_status = 503, resp_text = error_body\<rparr>"
  have parse: "JSON_parse ?env (resp_text ?r) = Inr error_value"
    by (simp add: env_with_def env_scan_def example_parse_def hello_body_def quota_body_def
        cloud_body_def no_text_body_def error_body_def quoted_def)
  from parse have "http_failure_message LocalJson ?env ?r = ''model not loaded''"
    by (simp add: http_failure_message_def envelope_message_def value_at_def error_value_def)
  then have "handle_response LocalJson ?env ''notes/scan/'' ?r =
      fail HttpError ''model not loaded''"
    using handle_error [of ?r LocalJson ?env "''notes/scan/''"] by simp
  moreover have "convert LocalJson ?env =
      (fst (handle_response LocalJson ?env ''notes/scan/'' ?r),
       [Notice (start_notice LocalJson ?env), ReadBinary,
        Http (post_request LocalJson ?env [137, 80, 78, 71]) (Inr ?r)]
         @ snd (handle_response LocalJson ?env ''notes/scan/'' ?r))"
    by (rule convert_answered) (simp_all add: env_with_def env_scan_def answer_def)
  ultimately show ?thesis
    by (simp add: fail_eq)
qed


subsection \<open>Rendering a value\<close>

lemma to_string_examples:
  "to_string (JArr [JNum ''1'', JNull, JStr ''a'']) = Inr ''1,,a''"
  "to_string (JObj [(''code'', JNum ''1'')]) = Inr ''[object Object]''"
  "to_string (JObj [(''toString'', JNum ''1'')]) = Inl NotPrimitive"
  "to_string (JArr [JStr ''a'', JObj [(''toString'', JNull)]]) = Inl NotPrimitive"
  by simp_all


subsection \<open>A message that cannot be rendered\<close>

text \<open>
  The cloud backend answers \<^verbatim>\<open>{"code":1,"msg":{"toString":1}}\<close>. With status 502 the
  interpolation of the message throws inside the \<^verbatim>\<open>try\<close> block of the error path, and the
  handler shows the status code and the raw text; with status 200 it throws inside the
  \<^verbatim>\<open>try\<close> block of the success path, and the handler reports a response that could not
  be parsed.
\<close>

lemma show_int_502: "show_int 502 = ''502''"
  by code_simp

lemma unrenderable_message_example:
  "fst (convert Cloud (env_with (answer 502 odd_body))) =
     Inr (Failure HttpError (''HTTP 502 - '' @ odd_body))
   \<and> fst (convert Cloud (env_with (answer 200 odd_body))) =
       Inr (Failure MalformedResponse parse_error_notice)"
proof -
  let ?bad = "env_with (answer 502 odd_body)"
  let ?r = "\<lparr>resp_status = 502, resp_text = odd_body\<rparr>"
  let ?ok = "env_with (answer 200 odd_body)"
  let ?s = "\<lparr>resp_status = 200, resp_text = odd_body\<rparr>"
  have parse: "JSON_parse ?bad odd_body = Inr odd_value" "JSON_parse ?ok odd_body = Inr odd_value"
    by (simp_all add: env_with_def env_scan_def example_parse_def hello_body_def quota_body_def
        cloud_body_def no_text_body_def quoted_def error_body_def detail_body_def odd_body_def)
  have short: "take 100 odd_body = odd_body" "odd_body \<noteq> []"
    by (simp_all add: odd_body_def quoted_def)
  have bad: "has_document ?bad" "has_profile Cloud ?bad"
    "requestUrl ?bad (post_request Cloud ?bad (file_bytes ?bad)) = Inr ?r"
    by (simp_all add: has_document_def has_folder_def has_key_def env_with_def env_scan_def
        answer_def)
  have ok: "has_document ?ok" "has_profile Cloud ?ok"
    "requestUrl ?ok (post_request Cloud ?ok (file_bytes ?ok)) = Inr ?s"
    by (simp_all add: has_document_def has_folder_def has_key_def env_with_def env_scan_def
        answer_def)
  have "http_failure_message Cloud ?bad ?r = ''HTTP 502 - '' @ odd_body"
    using parse(1) short
    by (simp add: http_failure_message_def envelope_message_def value_at_def odd_value_def
        truncated_message_def show_int_502 NotPrimitive_def)
  moreover have "handle_response Cloud ?bad (folder ?bad) ?r =
      fail HttpError (http_failure_message Cloud ?bad ?r)"
    by (rule handle_error) simp
  ultimately have first: "fst (convert Cloud ?bad) = Inr (Failure HttpError (''HTTP 502 - '' @ odd_body))"
    using answered_failure [OF bad] by simp
  have "handle_response Cloud ?ok (folder ?ok) ?s = parse_failed"
    using parse(2)
    by (simp add: handle_response_cloud_def success_response_cloud_def odd_value_def
        try_catch_def io_bind_def lift_def parse_failed_eq)
  with convert_document_answered [OF ok]
  have "fst (convert Cloud ?ok) = Inr (Failure MalformedResponse parse_error_notice)"
    by (simp add: parse_failed_eq)
  with first show ?thesis
    by simp
qed


section \<open>\<^verbatim>\<open>testConnection\<close>\<close>

lemma notify_eq: "notify silent m = (Inr (), if silent then [] else [Notice m])"
  by (simp add: notify_def io_when_def emit_def io_return_def)

lemma said_eq:
  "io_then (notify silent m) (io_return x) = (Inr x, if silent then [] else [Notice m])"
  "io_then (notify silent m) (Inr x, []) = (Inr x, if silent then [] else [Notice m])"
  by (simp_all add: notify_eq io_then_def io_bind_def io_return_def)

text \<open>The second attempt of the local variants, by what the root address does.\<close>

lemma alt_attempt_eq:
  "alt_attempt env silent =
     (case requestUrl env (get_request (fallback_url env) []) of
        Inl e \<Rightarrow> (Inr None, [Http (get_request (fallback_url env) []) (Inl e)])
      | Inr r \<Rightarrow>
          if resp_status r = 200
          then (Inr (Some True),
                Http (get_request (fallback_url env) []) (Inr r)
                  # (if silent then [] else [Notice ''GLM-OCR connection successful!'']))
          else (Inr None, [Http (get_request (fallback_url env) []) (Inr r)]))"
  by (simp add: alt_attempt_def fallback_url_def try_catch_def io_bind_def send_def said_eq
      io_return_def split: sum.splits)

text \<open>
  Both local variants, by what the two addresses do. \<open>said\<close> stands for the notice of
  the outcome, which differs between the two variants and is not shown to a silent
  caller.
\<close>

lemma testConnection_local_eq:
  assumes "b = LocalJson \<or> b = LocalMultipart"
  shows "\<exists>said. list_all is_notice said \<and> testConnection b env silent =
     (case requestUrl env (get_request (primary_url b env) []) of
        Inl e \<Rightarrow> (Inr False, Http (get_request (primary_url b env) []) (Inl e) # said)
      | Inr r \<Rightarrow>
          if resp_status r = 200
          then (Inr True, Http (get_request (primary_url b env) []) (Inr r) # said)
          else (case requestUrl env (get_request (fallback_url env) []) of
                  Inl e \<Rightarrow>
                    (Inr False,
                     [Http (get_request (primary_url b env) []) (Inr r),
                      Http (get_request (fallback_url env) []) (Inl e)] @ said)
                | Inr r2 \<Rightarrow>
                    (Inr (resp_status r2 = 200),
                     [Http (get_request (primary_url b env) []) (Inr r),
                      Http (get_request (fallback_url env) []) (Inr r2)] @ said)))"
proof (cases "requestUrl env (get_request (primary_url b env) [])")
  case (Inl e)
  with assms show ?thesis
    by (cases silent)
      (auto simp: testConnection_local_json_def testConnection_local_multipart_def
        try_catch_def io_bind_def send_def said_eq)
next
  case (Inr r)
  show ?thesis
  proof (cases "resp_status r = 200")
    case True
    with Inr assms show ?thesis
      by (cases silent)
        (auto simp: testConnection_local_json_def testConnection_local_multipart_def
          try_catch_def io_bind_def send_def said_eq)
  next
    case False
    with Inr assms show ?thesis
      by (cases silent; cases "requestUrl env (get_request (fallback_url env) [])")
        (auto simp: testConnection_local_json_def testConnection_local_multipart_def
          try_catch_def io_bind_def send_def said_eq alt_attempt_eq io_return_def)
  qed
qed

lemma testConnection_cloud_no_key:
  "\<not> has_key env \<Longrightarrow>
   testConnection Cloud env silent =
     (Inr False, if silent then [] else [Notice ''Error: API key not configured''])"
  by (auto simp: has_key_def testConnection_cloud_def key_not_configured_def said_eq
      split: option.splits)

lemma testConnection_cloud_eq:
  assumes "has_key env"
  shows "\<exists>said. list_all is_notice said \<and> testConnection Cloud env silent =
     (case requestUrl env (get_request (primary_url Cloud env) [(''Authorization'', api_key env)]) of
        Inl e \<Rightarrow>
          (Inr False,
           Http (get_request (primary_url Cloud env) [(''Authorization'', api_key env)]) (Inl e) # said)
      | Inr r \<Rightarrow>
          (Inr (resp_status r = 200),
           Http (get_request (primary_url Cloud env) [(''Authorization'', api_key env)]) (Inr r) # said))"
proof -
  from assms obtain k where k: "glmocrApiKey env = Some k" "k \<noteq> []" "api_key env = k"
    by (auto simp: has_key_def api_key_def split: option.splits)
  show ?thesis
  proof (cases "requestUrl env (get_request (primary_url Cloud env) [(''Authorization'', k)])")
    case (Inl e)
    with k show ?thesis
      by (cases silent)
        (auto simp: testConnection_cloud_def try_catch_def io_bind_def send_def said_eq)
  next
    case (Inr r)
    with k show ?thesis
      by (cases silent; cases "resp_status r = 200")
        (auto simp: testConnection_cloud_def try_catch_def io_bind_def send_def said_eq)
  qed
qed

lemma notices_no_responses: "list_all is_notice tr \<Longrightarrow> responses tr = []"
  by (simp add: no_requests_no_responses notices_no_requests)

lemma notices_no_refusals: "list_all is_notice tr \<Longrightarrow> refusals tr = []"
  by (simp add: no_requests_no_refusals notices_no_requests)

lemma models_probe_local: "b \<noteq> Cloud \<Longrightarrow> models_probe b env = get_request (primary_url b env) []"
  by (cases b) simp_all

text \<open>
  Claim C6, as the code has it. \<^verbatim>\<open>testConnection\<close> returns \<^verbatim>\<open>true\<close> if and only if the
  profile is there (the credential, for the cloud backend) and either the address of the
  models answers with status 200 or, in the local variants only, it answers with
  another status and the root address answers with status 200. It asks the address of
  the models first, and the root address only after such an answer. It never throws,
  and it returns \<^verbatim>\<open>false\<close> whenever one of its requests ends in an exception of the
  transport, a refused connection among them.
\<close>

theorem test_connection:
  "fst (testConnection b env silent) =
     Inr (has_profile b env
          \<and> (answers_200 env (models_probe b env)
             \<or> b \<noteq> Cloud \<and> answers_otherwise env (models_probe b env)
                \<and> answers_200 env (root_probe env)))
   \<and> requests (snd (testConnection b env silent)) =
       (if \<not> has_profile b env then []
        else if b \<noteq> Cloud \<and> answers_otherwise env (models_probe b env)
        then [models_probe b env, root_probe env]
        else [models_probe b env])
   \<and> (refusals (snd (testConnection b env silent)) \<noteq> []
        \<longrightarrow> fst (testConnection b env silent) = Inr False)"
proof (cases "b = Cloud")
  case True
  show ?thesis
  proof (cases "has_key env")
    case False
    show ?thesis
      unfolding True testConnection_cloud_no_key [OF False]
      using False by simp
  next
    case key: True
    from testConnection_cloud_eq [OF key, of silent] obtain said where
      said: "list_all is_notice said" and
      run: "testConnection Cloud env silent =
        (case requestUrl env (get_request (primary_url Cloud env) [(''Authorization'', api_key env)]) of
           Inl e \<Rightarrow>
             (Inr False,
              Http (get_request (primary_url Cloud env) [(''Authorization'', api_key env)]) (Inl e) # said)
         | Inr r \<Rightarrow>
             (Inr (resp_status r = 200),
              Http (get_request (primary_url Cloud env) [(''Authorization'', api_key env)]) (Inr r) # said))"
      by blast
    from said have quiet: "refusals said = []" "requests said = []"
      by (simp_all add: notices_no_refusals notices_no_requests)
    from key show ?thesis
      unfolding True run
      by (cases "requestUrl env (get_request (primary_url Cloud env) [(''Authorization'', api_key env)])")
        (simp_all add: quiet answers_200_def del: primary_url.simps)
  qed
next
  case False
  then have local: "b = LocalJson \<or> b = LocalMultipart"
    by (cases b) simp_all
  then have profile: "has_profile b env"
    by auto
  note probe = models_probe_local [OF False, of env]
  from testConnection_local_eq [OF local, of env silent] obtain said where
    said: "list_all is_notice said" and
    run: "testConnection b env silent =
     (case requestUrl env (get_request (primary_url b env) []) of
        Inl e \<Rightarrow> (Inr False, Http (get_request (primary_url b env) []) (Inl e) # said)
      | Inr r \<Rightarrow>
          if resp_status r = 200
          then (Inr True, Http (get_request (primary_url b env) []) (Inr r) # said)
          else (case requestUrl env (get_request (fallback_url env) []) of
                  Inl e \<Rightarrow>
                    (Inr False,
                     [Http (get_request (primary_url b env) []) (Inr r),
                      Http (get_request (fallback_url env) []) (Inl e)] @ said)
                | Inr r2 \<Rightarrow>
                    (Inr (resp_status r2 = 200),
                     [Http (get_request (primary_url b env) []) (Inr r),
                      Http (get_request (fallback_url env) []) (Inr r2)] @ said)))"
    by blast
  from said have quiet: "refusals said = []" "requests said = []"
    by (simp_all add: notices_no_refusals notices_no_requests)
  show ?thesis
  proof (cases "requestUrl env (get_request (primary_url b env) [])")
    case (Inl e)
    with False profile show ?thesis
      unfolding run probe
      by (simp add: quiet answers_200_def answers_otherwise_def del: primary_url.simps)
  next
    case (Inr r)
    with False profile show ?thesis
      unfolding run probe
      by (cases "requestUrl env (get_request (fallback_url env) [])")
        (simp_all add: quiet answers_200_def answers_otherwise_def root_probe_def
          del: primary_url.simps)
  qed
qed


text \<open>
  A server that answers the address of its models with status 404 and its root with
  status 200: the second attempt succeeds. A server that refuses every connection: the
  call returns \<^verbatim>\<open>false\<close>.
\<close>

theorem test_connection_witness:
  "fst (testConnection LocalJson (env_with root_only) True) = Inr True
   \<and> map req_url (requests (snd (testConnection LocalJson (env_with root_only) True))) =
       [''http://localhost:8080/models'', ''http://localhost:8080/'']
   \<and> refusals (snd (testConnection LocalMultipart (env_with refuse) True)) \<noteq> []
   \<and> fst (testConnection LocalMultipart (env_with refuse) True) = Inr False"
proof -
  have refused: "refusals (snd (testConnection LocalMultipart (env_with refuse) True)) \<noteq> []"
    by (simp add: testConnection_local_multipart_def said_eq try_catch_def io_bind_def send_def
        env_with_def env_scan_def refuse_def)
  have first: "fst (testConnection LocalJson (env_with root_only) True) = Inr True
      \<and> requests (snd (testConnection LocalJson (env_with root_only) True)) =
          [get_request ''http://localhost:8080/models'' [], get_request ''http://localhost:8080/'' []]"
    using test_connection [of LocalJson "env_with root_only" True]
    by (simp add: answers_200_def answers_otherwise_def root_probe_def fallback_url_def
        endpoint_def or_default_def env_with_def env_scan_def root_only_def get_request_def)
  have second: "fst (testConnection LocalMultipart (env_with refuse) True) = Inr False"
    using test_connection [of LocalMultipart "env_with refuse" True] refused
    by blast
  from first second refused show ?thesis
    by (simp add: get_request_def)
qed

text \<open>
  Claim C6 as it is written makes the result \<^verbatim>\<open>true\<close> whenever the root address answers
  with status 200. A server resets the connection on the address of its models and
  would answer its root address with status 200: the call returns \<^verbatim>\<open>false\<close> after one
  request, and the root address is not asked.
\<close>

theorem root_not_asked_after_reset:
  "requestUrl (env_with root_after_reset) (root_probe (env_with root_after_reset)) =
     Inr \<lparr>resp_status = 200, resp_text = ''ok''\<rparr>
   \<and> testConnection LocalJson (env_with root_after_reset) True =
       (Inr False,
        [Http (get_request ''http://localhost:8080/models'' [])
           (Inl (Thrown ''net::ERR_CONNECTION_RESET''))])"
  by (simp add: testConnection_local_json_def said_eq try_catch_def io_bind_def send_def
      root_probe_def fallback_url_def endpoint_def or_default_def env_with_def env_scan_def
      root_after_reset_def get_request_def)

section \<open>A call without a credential, and the requests of a call\<close>

text \<open>
  Claim C8. In the cloud variant, when the API key is missing from the settings
  (undefined or empty), \<^verbatim>\<open>testConnection\<close> returns \<^verbatim>\<open>false\<close> and \<^verbatim>\<open>convert\<close> returns \<^verbatim>\<open>false\<close>,
  through the exit for a missing credential once the folder is prepared; neither sends
  a request, and neither does anything but show notices: the file is not read and no
  vault operation runs.
\<close>

theorem missing_key:
  assumes "\<not> has_key env"
  shows "fst (testConnection Cloud env silent) = Inr False
         \<and> requests (snd (testConnection Cloud env silent)) = []
         \<and> list_all is_notice (snd (testConnection Cloud env silent))
         \<and> fst (convert Cloud env) =
             Inr (if has_folder env then Failure ConfigError key_missing_notice
                  else Failure Declined [])
         \<and> requests (snd (convert Cloud env)) = []
         \<and> list_all is_notice (snd (convert Cloud env))"
proof -
  have test: "testConnection Cloud env silent =
      (Inr False, if silent then [] else [Notice ''Error: API key not configured''])"
    using assms by (rule testConnection_cloud_no_key)
  have conv: "convert Cloud env =
      (if has_folder env
       then (Inr (Failure ConfigError key_missing_notice),
             [Notice (start_notice Cloud env), Notice key_missing_notice])
       else (Inr (Failure Declined []), []))"
    using assms convert_no_key [of env] convert_declined [of env Cloud]
    by (simp add: declined_eq)
  show ?thesis
    unfolding test conv by simp
qed

theorem missing_key_witness:
  "fst (testConnection Cloud env_no_key False) = Inr False
   \<and> fst (convert Cloud env_no_key) =
       Inr (Failure ConfigError ''Error: GLM-OCR API key not configured. Please set it in plugin settings.'')
   \<and> requests (snd (convert Cloud env_no_key)) = []"
proof -
  have key: "\<not> has_key env_no_key"
    by (simp add: has_key_def env_no_key_def env_scan_def)
  have folder: "has_folder env_no_key"
    by (simp add: has_folder_def env_no_key_def env_scan_def)
  from missing_key [OF key, of False] folder show ?thesis
    by (simp add: key_missing_notice_def)
qed

text \<open>
  Claim C9. A call of \<^verbatim>\<open>convert\<close> sends at most one request, whatever becomes of it; the
  request is a \<^verbatim>\<open>POST\<close> to the base address of the backend followed by its fixed
  sub-path. It sends exactly one request whenever it has a document (the folder is
  prepared and the file is read) and a profile (the credential of the cloud backend is
  there), and none otherwise.
\<close>

theorem one_request:
  "requests (snd (convert b env)) =
     (if has_document env \<and> has_profile b env then [post_request b env (file_bytes env)] else [])
   \<and> req_method (post_request b env (file_bytes env)) = ''POST''
   \<and> req_url (post_request b env (file_bytes env)) = post_url b env
   \<and> length (requests (snd (convert b env))) \<le> 1"
  by (simp add: convert_requests method_and_url)

text \<open>
  The request is refused: there is one request in the trace, no second one, and the
  call returns \<^verbatim>\<open>false\<close>.
\<close>

theorem one_request_witness:
  "map req_url (requests (snd (convert LocalJson (env_with refuse)))) =
     [''http://localhost:8080/chat/completions'']
   \<and> map req_method (requests (snd (convert LocalJson (env_with refuse)))) = [''POST'']
   \<and> refusals (snd (convert LocalJson (env_with refuse))) = [Thrown ''net::ERR_CONNECTION_REFUSED'']"
proof -
  let ?env = "env_with refuse"
  have doc: "has_document ?env" and bytes: "file_bytes ?env = [137, 80, 78, 71]"
    by (simp_all add: has_document_def has_folder_def file_bytes_def env_with_def env_scan_def)
  have url: "post_url LocalJson ?env = ''http://localhost:8080/chat/completions''"
    by (simp add: endpoint_def or_default_def env_with_def env_scan_def)
  have "convert LocalJson ?env =
      (fst (transport_failed (Thrown ''net::ERR_CONNECTION_REFUSED'')),
       [Notice (start_notice LocalJson ?env), ReadBinary,
        Http (post_request LocalJson ?env [137, 80, 78, 71]) (Inl (Thrown ''net::ERR_CONNECTION_REFUSED''))]
         @ snd (transport_failed (Thrown ''net::ERR_CONNECTION_REFUSED'')))"
    by (rule convert_refused)
      (simp_all add: has_folder_def env_with_def env_scan_def refuse_def)
  then have refused: "refusals (snd (convert LocalJson ?env)) = [Thrown ''net::ERR_CONNECTION_REFUSED'']"
    by (simp add: refusals_append no_requests_no_refusals transport_failed_requests)
  from one_request [of LocalJson ?env] doc have
    "requests (snd (convert LocalJson ?env)) = [post_request LocalJson ?env (file_bytes ?env)]"
    "req_method (post_request LocalJson ?env (file_bytes ?env)) = ''POST''"
    "req_url (post_request LocalJson ?env (file_bytes ?env)) = post_url LocalJson ?env"
    by simp_all
  with url refused show ?thesis
    by simp
qed


section \<open>The request for a PDF file\<close>

lemma encode_part_begins:
  "\<exists>rest. encode_part bdry p = TextEncoder_encode (''--'' @ bdry @ CRLF) @ rest"
  by (simp add: encode_part_def TextEncoder_encode_append TextEncoder_encode_Cons)

lemma multipart_form_data_ends:
  "\<exists>front. multipart_form_data bdry ps = front @ TextEncoder_encode (''--'' @ bdry @ ''--'' @ CRLF)"
  by (simp add: multipart_form_data_def closing_marker_def)

text \<open>
  Claim C7. For a PDF file, the multipart variant sends one request whose body is built
  by the three loops of the source and is the multipart form data of two parts under
  the boundary drawn for the call: one part named \<^verbatim>\<open>file\<close>, whose payload is the bytes of
  the file (as many bytes as the file has), and one part named \<^verbatim>\<open>prompt\<close>, whose payload
  is the fixed prompt. Every part begins with two dashes and that boundary, the body
  ends with the closing marker of that boundary, and the \<^verbatim>\<open>Content-Type\<close> header of the
  request names the same boundary.
\<close>

theorem multipart_request_body:
  assumes "isPDF env" and "has_document env"
  shows "(let ps = [file_part (file_name env) (file_bytes env), prompt_part];
              body = multipart_form_data (boundary env) ps
          in requests (snd (convert LocalMultipart env)) = [multipart_request env body]
             \<and> multipart_body (boundary env) (file_name env) (file_bytes env) = Inr body
             \<and> req_body (multipart_request env body) = Some (Binary body)
             \<and> req_headers (multipart_request env body) =
                 [(''Content-Type'', ''multipart/form-data; boundary='' @ boundary env)]
             \<and> filter (\<lambda>p. part_name p = ''file'') ps = [file_part (file_name env) (file_bytes env)]
             \<and> part_payload (file_part (file_name env) (file_bytes env)) = file_bytes env
             \<and> length (part_payload (file_part (file_name env) (file_bytes env))) = length (file_bytes env)
             \<and> filter (\<lambda>p. part_name p = ''prompt'') ps = [prompt_part]
             \<and> part_payload prompt_part = TextEncoder_encode prompt_pdf
             \<and> (\<forall>p \<in> set ps. \<exists>rest.
                   encode_part (boundary env) p = TextEncoder_encode (''--'' @ boundary env @ CRLF) @ rest)
             \<and> (\<exists>front. body = front @ TextEncoder_encode (''--'' @ boundary env @ ''--'' @ CRLF)))"
proof -
  let ?ps = "[file_part (file_name env) (file_bytes env), prompt_part]"
  let ?body = "multipart_form_data (boundary env) ?ps"
  from assms have sent: "requests (snd (convert LocalMultipart env)) = [multipart_request env ?body]"
    using convert_requests [of LocalMultipart env] by simp
  have built: "multipart_body (boundary env) (file_name env) (file_bytes env) = Inr ?body"
    by (rule multipart_body_layout)
  have request: "req_body (multipart_request env ?body) = Some (Binary ?body)"
    "req_headers (multipart_request env ?body) =
       [(''Content-Type'', ''multipart/form-data; boundary='' @ boundary env)]"
    by (simp_all add: multipart_request_def)
  have named: "filter (\<lambda>p. part_name p = ''file'') ?ps = [file_part (file_name env) (file_bytes env)]"
    "filter (\<lambda>p. part_name p = ''prompt'') ?ps = [prompt_part]"
    "part_payload (file_part (file_name env) (file_bytes env)) = file_bytes env"
    "part_payload prompt_part = TextEncoder_encode prompt_pdf"
    by (simp_all add: file_part_def prompt_part_def)
  have begins: "\<forall>p \<in> set ?ps. \<exists>rest.
      encode_part (boundary env) p = TextEncoder_encode (''--'' @ boundary env @ CRLF) @ rest"
    using encode_part_begins by blast
  have ends: "\<exists>front. ?body = front @ TextEncoder_encode (''--'' @ boundary env @ ''--'' @ CRLF)"
    by (rule multipart_form_data_ends)
  from sent built request named begins ends show ?thesis
    unfolding Let_def by (intro conjI) simp_all
qed

text \<open>The file \<^verbatim>\<open>paper.pdf\<close> of five bytes.\<close>

lemma isPDF_env_pdf: "isPDF env_pdf"
  by (simp add: isPDF_def fileExt_def toLowerCase_def lower_char_def env_pdf_def env_scan_def)

theorem multipart_request_body_witness:
  "map req_body (requests (snd (convert LocalMultipart env_pdf))) =
     [Some (Binary (multipart_form_data ''----WebKitFormBoundary4fzyo82mvyr''
                      [file_part ''paper.pdf'' [37, 80, 68, 70, 45], prompt_part]))]
   \<and> map req_url (requests (snd (convert LocalMultipart env_pdf))) =
       [''http://localhost:8080/v1/chat/completions'']
   \<and> length (part_payload (file_part ''paper.pdf'' [37, 80, 68, 70, 45])) = 5"
proof -
  have doc: "has_document env_pdf"
    by (simp add: has_document_def has_folder_def env_pdf_def env_scan_def)
  have env: "file_name env_pdf = ''paper.pdf''" "file_bytes env_pdf = [37, 80, 68, 70, 45]"
    "boundary env_pdf = ''----WebKitFormBoundary4fzyo82mvyr''"
    "endpoint env_pdf = ''localhost:8080''"
    by (simp_all add: file_bytes_def boundary_def endpoint_def or_default_def env_pdf_def
        env_scan_def)
  from multipart_request_body [OF isPDF_env_pdf doc] show ?thesis
    by (simp add: Let_def env multipart_request_def file_part_def)
qed

end
